theory Spec2Isabelle
  imports Complex_Main
begin

section \<open>Errors and arrays\<close>

text \<open>
  The development embeds three parts of picca: the driver of the one-dimensional power
  spectrum (\<^verbatim>\<open>bin/picca_Pk1D.py\<close>), the masks of the delta extraction
  (\<^verbatim>\<open>delta_extraction/mask.py\<close>, \<^verbatim>\<open>delta_extraction/masks/dla_mask.py\<close>) and
  the blinding of \<^verbatim>\<open>DesiData\<close>.

  Floating-point arrays are lists of reals: rounding, infinities and nan are not
  represented. Every \<^verbatim>\<open>raise\<close> of the source, and every exception of the Python
  and numpy operations it uses, is a value \<open>Inl e\<close> of a sum type.
\<close>

datatype error =
    ValueError string
  | IndexError
  | TypeError
  | ZeroDivisionError
  | UnboundLocalError
  | AttributeError
  | MaskError

type_synonym 'a result = "error + 'a"

fun bind :: "'a result \<Rightarrow> ('a \<Rightarrow> 'b result) \<Rightarrow> 'b result" where
  "bind (Inl e) f = Inl e"
| "bind (Inr x) f = f x"

text \<open>\<^verbatim>\<open>xs[i]\<close> on a Python list or an array: IndexError out of range.\<close>

definition getitem :: "'a list \<Rightarrow> nat \<Rightarrow> 'a result" where
  "getitem xs i = (if i < length xs then Inr (xs ! i) else Inl IndexError)"

subsection \<open>numpy\<close>

text \<open>\<^verbatim>\<open>np.diff(a)\<close>: \<open>a[i+1] - a[i]\<close>.\<close>

definition np_diff :: "real list \<Rightarrow> real list" where
  "np_diff a = map (\<lambda>(x, y). y - x) (zip a (tl a))"

text \<open>\<^verbatim>\<open>10**a\<close>, elementwise.\<close>

definition pow10 :: "real list \<Rightarrow> real list" where
  "pow10 a = map (\<lambda>x. 10 powr x) a"

text \<open>
  \<^verbatim>\<open>np.percentile(a, q)\<close> with numpy's default linear interpolation: on the sorted
  array of \<open>n\<close> values the virtual index is \<open>q / 100 * (n - 1)\<close>; the result
  interpolates between the values at its floor and at the next index (clipped to the
  last one). The array is not empty where this is called.
\<close>

definition np_percentile :: "real list \<Rightarrow> real \<Rightarrow> real" where
  "np_percentile a q =
     (let s = sort a;
          n = length s;
          v = q / 100 * real (n - 1);
          lo = nat \<lfloor>v\<rfloor>;
          hi = min (lo + 1) (n - 1);
          g = v - real lo
      in s ! lo + (s ! hi - s ! lo) * g)"

text \<open>\<^verbatim>\<open>np.median(a)\<close>: the middle value, or the mean of the two middle values.\<close>

definition np_median :: "real list \<Rightarrow> real" where
  "np_median a =
     (let s = sort a; n = length s
      in if odd n then s ! (n div 2) else (s ! (n div 2 - 1) + s ! (n div 2)) / 2)"

text \<open>\<^verbatim>\<open>np.mean(a)\<close>.\<close>

definition np_mean :: "real list \<Rightarrow> real" where
  "np_mean a = sum_list a / real (length a)"

section \<open>The driver of the power spectrum: \<^verbatim>\<open>picca_Pk1D.py\<close>\<close>

record Delta =
  mean_snr :: real
  mean_reso :: real
  log_lambda :: "real list"
  delta :: "real list"
  exposures_diff :: "real list"
  ivar :: "real list"
  resolution_matrix :: "real list list option"

subsection \<open>\<^verbatim>\<open>check_linear_binning\<close>\<close>

definition msg_lambda_as_log :: string where
  "msg_lambda_as_log =
     ''Could not figure out if linear or log wavelength binning was used, probably submitted lambda as log_lambda''"

definition msg_cannot_classify :: string where
  "msg_cannot_classify = ''Could not figure out if linear or log wavelength binning was used''"

text \<open>
  On fewer than two pixels the arrays of differences are empty. Their quantiles are taken
  as nan, as current numpy returns them: every comparison with nan is false, which leads
  to the last branch.
\<close>

definition diff_lambda :: "'a Delta_scheme \<Rightarrow> real list" where
  "diff_lambda d = np_diff (pow10 (log_lambda d))"

definition diff_log_lambda :: "'a Delta_scheme \<Rightarrow> real list" where
  "diff_log_lambda d = np_diff (log_lambda d)"

definition check_linear_binning :: "'a Delta_scheme \<Rightarrow> (bool \<times> real) result" where
  "check_linear_binning d =
     (if diff_log_lambda d = [] then Inl (ValueError msg_cannot_classify)
      else
        let q5_lambda = np_percentile (diff_lambda d) 5;
            q25_lambda = np_percentile (diff_lambda d) 25;
            q5_log_lambda = np_percentile (diff_log_lambda d) 5;
            q25_log_lambda = np_percentile (diff_log_lambda d) 25
        in if q25_lambda - q5_lambda < 1 / 10 ^ 6 then Inr (True, np_median (diff_lambda d))
           else if q25_log_lambda - q5_log_lambda < 1 / 10 ^ 6 \<and> q5_log_lambda < 0.01
             then Inr (False, np_median (diff_log_lambda d))
           else if q5_log_lambda \<ge> 0.01 then Inl (ValueError msg_lambda_as_log)
           else Inl (ValueError msg_cannot_classify))"

subsection \<open>Options, collaborators and the state of a run\<close>

text \<open>The command-line options that the computation reads.\<close>

record args =
  SNR_min :: real
  reso_max :: real
  lambda_obs_min :: real
  nb_part :: int
  nb_pixel_min :: int
  nb_pixel_masked_max :: int
  no_apply_filling :: bool
  noise_estimate :: string
  disable_reso_matrix :: bool
  force_output_in_velocity :: bool

text \<open>
  What \<^verbatim>\<open>split_forest\<close> is called with, and what it returns: the mean redshifts and the
  coordinate, delta, exposure-difference and inverse-variance arrays of the parts.
\<close>

record split_call =
  sc_num_parts :: int
  sc_delta_pixel :: real
  sc_coord :: "real list"
  sc_delta :: "real list"
  sc_exposures_diff :: "real list"
  sc_ivar :: "real list"
  sc_first_pixel_index :: nat
  sc_reso_matrix :: "real list list option"

record split =
  mean_z_array :: "real list"
  coord_array :: "real list list"
  delta_array :: "real list list"
  exposures_diff_array :: "real list list"
  ivar_array :: "real list list"

text \<open>
  The functions of \<^verbatim>\<open>picca.pk1d\<close> and the constant of \<^verbatim>\<open>picca.constants\<close> are
  imported by the script and are not part of it: they are parameters of the model, taken
  as functions that return normally. The arguments are in the order of the calls.
\<close>

record pk1d =
  split_forest :: "split_call \<Rightarrow> split"
  rebin_diff_noise :: "real \<Rightarrow> real list \<Rightarrow> real list \<Rightarrow> real list"
  fill_masked_pixels ::
    "real \<Rightarrow> real list \<Rightarrow> real list \<Rightarrow> real list \<Rightarrow> real list \<Rightarrow> bool
      \<Rightarrow> real list \<times> real list \<times> real list \<times> real list \<times> int"
  compute_pk_raw :: "real \<Rightarrow> real list \<Rightarrow> bool \<Rightarrow> real list \<times> real list"
  compute_pk_noise :: "real \<Rightarrow> real list \<Rightarrow> real list \<Rightarrow> bool \<Rightarrow> bool \<Rightarrow> real list \<times> real list"
  compute_correction_reso_matrix :: "real list list option \<Rightarrow> real list \<Rightarrow> real \<Rightarrow> nat \<Rightarrow> real list"
  compute_correction_reso :: "real \<Rightarrow> real \<Rightarrow> real list \<Rightarrow> real list"
  speed_light :: real

text \<open>
  The variables of \<^verbatim>\<open>main\<close> that \<^verbatim>\<open>process_file\<close> closes over. \<^verbatim>\<open>delta_lambda\<close>
  and \<^verbatim>\<open>delta_log_lambda\<close> both hold \<^verbatim>\<open>delta_lam\<close>, each in its branch.
\<close>

datatype reso_correction = Gaussian | Matrix

record binning =
  linear_binning :: bool
  delta_lam :: real
  reso_correction :: reso_correction

text \<open>
  One element of \<^verbatim>\<open>pk_list\<close>:
  \<^verbatim>\<open>[k, pk_raw, pk_noise, pk_diff, correction_reso, pk, mean_z, num_masked_pixels]\<close>.
\<close>

record pk_entry =
  out_k :: "real list"
  out_pk_raw :: "real list"
  out_pk_noise :: "real list"
  out_pk_diff :: "real list"
  out_correction_reso :: "real list"
  out_pk :: "real list"
  out_mean_z :: real
  out_num_masked_pixels :: int

subsection \<open>Array arithmetic of the combination\<close>

text \<open>
  An elementwise operation of numpy on two one-dimensional arrays: equal lengths, or one
  of them of length one (broadcast), or ValueError.
\<close>

definition np_broadcast :: "(real \<Rightarrow> real \<Rightarrow> real) \<Rightarrow> real list \<Rightarrow> real list \<Rightarrow> real list result" where
  "np_broadcast f x y =
     (if length x = length y then Inr (map (\<lambda>(u, v). f u v) (zip x y))
      else if length y = 1 then Inr (map (\<lambda>u. f u (hd y)) x)
      else if length x = 1 then Inr (map (f (hd x)) y)
      else Inl (ValueError ''operands could not be broadcast together''))"

text \<open>\<^verbatim>\<open>a[selection]\<close> with a boolean array: IndexError unless the lengths agree.\<close>

definition np_bool_index :: "'a list \<Rightarrow> bool list \<Rightarrow> 'a list result" where
  "np_bool_index a w =
     (if length a = length w then Inr (map fst (filter snd (zip a w))) else Inl IndexError)"

subsection \<open>\<^verbatim>\<open>process_file\<close>\<close>

text \<open>
  The first pixel past the observed-wavelength floor: \<^verbatim>\<open>np.argmax\<close> of the boolean
  array is the index of its first true value; the length when there is none.
\<close>

definition selected_pixels :: "args \<Rightarrow> 'a Delta_scheme \<Rightarrow> bool list" where
  "selected_pixels a d = map (\<lambda>x. x > lambda_obs_min a) (pow10 (log_lambda d))"

definition first_pixel_index :: "bool list \<Rightarrow> nat" where
  "first_pixel_index sel =
     (if True \<in> set sel then length (takeWhile (\<lambda>b. \<not> b) sel) else length sel)"

definition remaining_pixels :: "args \<Rightarrow> 'a Delta_scheme \<Rightarrow> int" where
  "remaining_pixels a d =
     int (length (log_lambda d)) - int (first_pixel_index (selected_pixels a d))"

text \<open>
  \<^verbatim>\<open>(len(delta.log_lambda) - first_pixel_index) // min_num_pixels\<close>. With a selected
  pixel the difference is a numpy integer, whose floor division by zero gives zero (as
  \<open>div\<close> does); with none it is the Python integer zero, whose division by zero raises.
\<close>

definition max_num_parts :: "args \<Rightarrow> 'a Delta_scheme \<Rightarrow> int result" where
  "max_num_parts a d =
     (if True \<notin> set (selected_pixels a d) \<and> nb_pixel_min a = 0 then Inl ZeroDivisionError
      else Inr (remaining_pixels a d div nb_pixel_min a))"

definition split_forest_call :: "args \<Rightarrow> binning \<Rightarrow> 'a Delta_scheme \<Rightarrow> int \<Rightarrow> split_call" where
  "split_forest_call a env d num_parts =
     \<lparr>sc_num_parts = num_parts,
      sc_delta_pixel = delta_lam env,
      sc_coord = (if linear_binning env then pow10 (log_lambda d) else log_lambda d),
      sc_delta = delta d,
      sc_exposures_diff = exposures_diff d,
      sc_ivar = ivar d,
      sc_first_pixel_index = first_pixel_index (selected_pixels a d),
      sc_reso_matrix = (if reso_correction env = Matrix then resolution_matrix d else None)\<rparr>"

text \<open>
  The resolution correction: the matrix or the Gaussian one in wavelength for a linear
  binning, the Gaussian one in velocity otherwise.
\<close>

definition correction_of ::
  "pk1d \<Rightarrow> binning \<Rightarrow> 'a Delta_scheme \<Rightarrow> real list \<Rightarrow> real list \<Rightarrow> real list" where
  "correction_of lib env d k lambda_new =
     (if linear_binning env then
        (case reso_correction env of
           Matrix \<Rightarrow>
             compute_correction_reso_matrix lib (resolution_matrix d) k (delta_lam env) (length lambda_new)
         | Gaussian \<Rightarrow>
             (let mean_reso_AA = delta_lam env * mean_reso d / ln 10 / speed_light lib * 1000
              in compute_correction_reso lib (delta_lam env) mean_reso_AA k))
      else
        (let delta_pixel = delta_lam env * ln 10 * speed_light lib / 1000
         in compute_correction_reso lib delta_pixel (mean_reso d) k))"

text \<open>
  ``Compute 1D Pk'': the chain of \<^verbatim>\<open>if\<close>/\<^verbatim>\<open>elif\<close> has no \<^verbatim>\<open>else\<close>, so under
  any other noise estimate the variable \<^verbatim>\<open>pk\<close> stays unassigned (\<open>None\<close>).
\<close>

definition combine_pk ::
  "string \<Rightarrow> real list \<Rightarrow> real list \<Rightarrow> real list \<Rightarrow> real list \<Rightarrow> real list
    \<Rightarrow> real list option result" where
  "combine_pk mode k pk_raw pk_noise pk_diff correction_reso =
     (if mode = ''pipeline'' then
        bind (np_broadcast (-) pk_raw pk_noise) (\<lambda>num.
        bind (np_broadcast (/) num correction_reso) (\<lambda>pk. Inr (Some pk)))
      else if mode = ''diff'' \<or> mode = ''rebin_diff'' then
        bind (np_broadcast (-) pk_raw pk_diff) (\<lambda>num.
        bind (np_broadcast (/) num correction_reso) (\<lambda>pk. Inr (Some pk)))
      else if mode = ''mean_diff'' \<or> mode = ''mean_rebin_diff'' then
        (let selection =
               (if mode = ''mean_rebin_diff'' then map (\<lambda>x. x > 0.003 \<and> x < 0.02) k
                else map (\<lambda>x. x > 0 \<and> x < 0.02) k)
         in bind (np_bool_index pk_diff selection) (\<lambda>sel.
            let mean_pk_diff = np_mean sel
            in bind (np_broadcast (/) (map (\<lambda>x. x - mean_pk_diff) pk_raw) correction_reso)
                 (\<lambda>pk. Inr (Some pk))))
      else Inr None)"

text \<open>
  The conversion to velocity units of a linear-binned result, and the packaging. Reading
  the unassigned \<^verbatim>\<open>pk\<close> raises UnboundLocalError, in the conversion or, without it,
  when the list of the entry is built; \<^verbatim>\<open>mean_z_array[part_index]\<close> is read after it.
\<close>

definition package ::
  "pk1d \<Rightarrow> args \<Rightarrow> binning \<Rightarrow> real list \<Rightarrow> real list \<Rightarrow> real list \<Rightarrow> real list \<Rightarrow> real list
    \<Rightarrow> real list option \<Rightarrow> real list \<Rightarrow> real list \<Rightarrow> nat \<Rightarrow> int \<Rightarrow> pk_entry result" where
  "package lib a env k pk_raw pk_noise pk_diff correction_reso pk_opt lambda_new mean_z part_index
      num_masked_pixels =
     (case pk_opt of
        None \<Rightarrow> Inl UnboundLocalError
      | Some pk0 \<Rightarrow>
          (let conv = force_output_in_velocity a \<and> linear_binning env;
               factor = speed_light lib / 1000 / np_mean lambda_new;
               pk = (if conv then map (\<lambda>x. x * factor) pk0 else pk0);
               k' = (if conv then map (\<lambda>x. x / factor) k else k)
           in bind (getitem mean_z part_index) (\<lambda>z.
              Inr \<lparr>out_k = k', out_pk_raw = pk_raw, out_pk_noise = pk_noise, out_pk_diff = pk_diff,
                   out_correction_reso = correction_reso, out_pk = pk, out_mean_z = z,
                   out_num_masked_pixels = num_masked_pixels\<rparr>)))"

text \<open>
  The body of the loop over the parts. \<open>None\<close> is the \<^verbatim>\<open>continue\<close> of a part with too
  many masked pixels.
\<close>

definition rebinned :: "args \<Rightarrow> bool" where
  "rebinned a = (noise_estimate a = ''rebin_diff'' \<or> noise_estimate a = ''mean_rebin_diff'')"

definition filled ::
  "pk1d \<Rightarrow> args \<Rightarrow> binning \<Rightarrow> split \<Rightarrow> nat
    \<Rightarrow> (real list \<times> real list \<times> real list \<times> real list \<times> int) result" where
  "filled lib a env sp part_index =
     bind (getitem (coord_array sp) part_index) (\<lambda>coord.
     bind (getitem (exposures_diff_array sp) part_index) (\<lambda>diff0.
     bind (getitem (delta_array sp) part_index) (\<lambda>dlt.
     bind (getitem (ivar_array sp) part_index) (\<lambda>iv.
       let diff = (if rebinned a then rebin_diff_noise lib (delta_lam env) coord diff0 else diff0)
       in Inr (fill_masked_pixels lib (delta_lam env) coord dlt diff iv (no_apply_filling a))))))"

definition process_part ::
  "pk1d \<Rightarrow> args \<Rightarrow> binning \<Rightarrow> 'a Delta_scheme \<Rightarrow> split \<Rightarrow> nat \<Rightarrow> pk_entry option result" where
  "process_part lib a env d sp part_index =
     bind (filled lib a env sp part_index)
       (\<lambda>(coord_new, delta_new, exposures_diff_new, ivar_new, num_masked_pixels).
         if num_masked_pixels > nb_pixel_masked_max a then Inr None
         else
           (let (k, pk_raw) = compute_pk_raw lib (delta_lam env) delta_new (linear_binning env);
                run_noise = (noise_estimate a = ''pipeline'');
                (pk_noise, pk_diff) =
                  compute_pk_noise lib (delta_lam env) ivar_new exposures_diff_new run_noise
                    (linear_binning env);
                correction_reso = correction_of lib env d k coord_new
            in bind (combine_pk (noise_estimate a) k pk_raw pk_noise pk_diff correction_reso)
                 (\<lambda>pk_opt.
               bind (package lib a env k pk_raw pk_noise pk_diff correction_reso pk_opt coord_new
                       (mean_z_array sp) part_index num_masked_pixels)
                 (\<lambda>e. Inr (Some e)))))"

text \<open>The loop: the first exception ends it; a skipped part adds nothing to the list.\<close>

fun parts_loop :: "(nat \<Rightarrow> pk_entry option result) \<Rightarrow> nat list \<Rightarrow> pk_entry list result" where
  "parts_loop f [] = Inr []"
| "parts_loop f (i # is) =
     bind (f i) (\<lambda>r. bind (parts_loop f is) (\<lambda>rs.
       Inr (case r of None \<Rightarrow> rs | Some e \<Rightarrow> e # rs)))"

definition num_parts :: "args \<Rightarrow> 'a Delta_scheme \<Rightarrow> int result" where
  "num_parts a d = bind (max_num_parts a d) (\<lambda>m. Inr (min (nb_part a) m))"

definition process_file ::
  "pk1d \<Rightarrow> args \<Rightarrow> binning \<Rightarrow> 'a Delta_scheme \<Rightarrow> pk_entry list option result" where
  "process_file lib a env d =
     (if mean_snr d \<le> SNR_min a \<or> mean_reso d \<ge> reso_max a then Inr None
      else if remaining_pixels a d < nb_pixel_min a then Inr None
      else
        bind (num_parts a d) (\<lambda>n.
          let sp = split_forest lib (split_forest_call a env d n)
          in bind (parts_loop (process_part lib a env d sp) [0..<nat n])
               (\<lambda>pk_list. Inr (Some pk_list))))"

subsection \<open>The loop of \<^verbatim>\<open>main\<close> over the input files\<close>

text \<open>
  The classification of the first file fixes the binning and the resolution correction of
  the run. In every later file the first spectrum (only) is classified again and compared;
  on a difference the handler executes \<^verbatim>\<open>raise ("...")\<close>, which raises TypeError, a
  string being no exception.
\<close>

definition first_binning :: "args \<Rightarrow> 'a Delta_scheme \<Rightarrow> binning result" where
  "first_binning a d =
     bind (check_linear_binning d) (\<lambda>(lb, dl).
       if lb then
         (if disable_reso_matrix a \<or> resolution_matrix d = None
          then Inr \<lparr>linear_binning = True, delta_lam = dl, reso_correction = Gaussian\<rparr>
          else Inr \<lparr>linear_binning = True, delta_lam = dl, reso_correction = Matrix\<rparr>)
       else Inr \<lparr>linear_binning = False, delta_lam = dl, reso_correction = Gaussian\<rparr>)"

definition same_binning :: "binning \<Rightarrow> 'a Delta_scheme \<Rightarrow> binning result" where
  "same_binning env d =
     bind (check_linear_binning d) (\<lambda>(linear_binning2, delta_lam2).
       if linear_binning2 = linear_binning env \<and> delta_lam2 = delta_lam env then Inr env
       else Inl TypeError)"

fun process_all ::
  "pk1d \<Rightarrow> args \<Rightarrow> binning \<Rightarrow> Delta list \<Rightarrow> pk_entry list option list result" where
  "process_all lib a env [] = Inr []"
| "process_all lib a env (d # ds) =
     bind (process_file lib a env d) (\<lambda>r. bind (process_all lib a env ds) (\<lambda>rs. Inr (r # rs)))"

text \<open>
  \<open>env\<close> is \<open>None\<close> before the first file. The result lists, per file,
  \<^verbatim>\<open>pk_list_of_lists\<close>, which is what the writing stage receives.
\<close>

fun main_loop ::
  "pk1d \<Rightarrow> args \<Rightarrow> binning option \<Rightarrow> Delta list list \<Rightarrow> pk_entry list option list list result" where
  "main_loop lib a env [] = Inr []"
| "main_loop lib a env (deltas # files) =
     bind (getitem deltas 0) (\<lambda>d.
     bind (case env of None \<Rightarrow> first_binning a d | Some e \<Rightarrow> same_binning e d) (\<lambda>e.
     bind (process_all lib a e deltas) (\<lambda>pk_list_of_lists.
     bind (main_loop lib a (Some e) files) (\<lambda>rest. Inr (pk_list_of_lists # rest)))))"

definition main :: "pk1d \<Rightarrow> args \<Rightarrow> Delta list list \<Rightarrow> pk_entry list option list list result" where
  "main lib a files = main_loop lib a None files"

section \<open>Masks of the delta extraction\<close>

subsection \<open>Forests and their arrays\<close>

text \<open>
  The attributes of a forest are read and written by name (\<^verbatim>\<open>getattr\<close>,
  \<^verbatim>\<open>setattr\<close>), so a forest is its line-of-sight id and a map from attribute names to
  arrays. An array is one-dimensional, or two-dimensional as the list of its rows (all of
  one length). The class \<^verbatim>\<open>Forest\<close> is not part of these files; its list
  \<^verbatim>\<open>Forest.mask_fields\<close> is a parameter. Each attribute owns its array.
\<close>

datatype ndarray = Arr1 "real list" | Arr2 "real list list"

record forest =
  los_id :: int
  attrs :: "string \<Rightarrow> ndarray option"

definition getattr :: "forest \<Rightarrow> string \<Rightarrow> ndarray result" where
  "getattr f name = (case attrs f name of None \<Rightarrow> Inl AttributeError | Some v \<Rightarrow> Inr v)"

definition setattr :: "forest \<Rightarrow> string \<Rightarrow> ndarray \<Rightarrow> forest" where
  "setattr f name v = f\<lparr>attrs := (attrs f)(name \<mapsto> v)\<rparr>"

text \<open>\<^verbatim>\<open>a[w]\<close>: the boolean array selects along the first axis.\<close>

definition index_first :: "ndarray \<Rightarrow> bool list \<Rightarrow> ndarray result" where
  "index_first v w =
     (case v of
        Arr1 xs \<Rightarrow> bind (np_bool_index xs w) (\<lambda>ys. Inr (Arr1 ys))
      | Arr2 rows \<Rightarrow> bind (np_bool_index rows w) (\<lambda>rs. Inr (Arr2 rs)))"

text \<open>
  \<^verbatim>\<open>a[:, w]\<close>: the boolean array selects along the second axis; an array of one
  dimension has no second axis (IndexError).
\<close>

fun index_rows :: "real list list \<Rightarrow> bool list \<Rightarrow> real list list result" where
  "index_rows [] w = Inr []"
| "index_rows (r # rs) w =
     bind (np_bool_index r w) (\<lambda>r'. bind (index_rows rs w) (\<lambda>rs'. Inr (r' # rs')))"

definition index_second :: "ndarray \<Rightarrow> bool list \<Rightarrow> ndarray result" where
  "index_second v w =
     (case v of
        Arr1 xs \<Rightarrow> Inl IndexError
      | Arr2 rows \<Rightarrow> bind (index_rows rows w) (\<lambda>rs. Inr (Arr2 rs)))"

text \<open>\<^verbatim>\<open>a[~w] = 0\<close>: zero where \<open>w\<close> is false, along the first axis.\<close>

definition zero_where_not :: "ndarray \<Rightarrow> bool list \<Rightarrow> ndarray result" where
  "zero_where_not v w =
     (case v of
        Arr1 xs \<Rightarrow>
          if length xs = length w then Inr (Arr1 (map (\<lambda>(x, b). if b then x else 0) (zip xs w)))
          else Inl IndexError
      | Arr2 rows \<Rightarrow>
          if length rows = length w
          then Inr (Arr2 (map (\<lambda>(r, b). if b then r else map (\<lambda>_. 0) r) (zip rows w)))
          else Inl IndexError)"

subsection \<open>\<^verbatim>\<open>mask.py\<close>\<close>

definition remove_pixels :: "forest \<Rightarrow> string \<Rightarrow> bool list \<Rightarrow> forest result" where
  "remove_pixels f param w =
     (if param \<in> set [''resolution_matrix''] then
        bind (getattr f param) (\<lambda>v. bind (index_second v w) (\<lambda>v'. Inr (setattr f param v')))
      else
        bind (getattr f param) (\<lambda>v. bind (index_first v w) (\<lambda>v'. Inr (setattr f param v'))))"

definition set_ivar_to_zero :: "forest \<Rightarrow> string \<Rightarrow> bool list \<Rightarrow> forest result" where
  "set_ivar_to_zero f param w =
     (if param = ''ivar'' then
        bind (getattr f ''ivar'') (\<lambda>v. bind (zero_where_not v w) (\<lambda>v'. Inr (setattr f ''ivar'' v')))
      else Inr f)"

record Mask =
  masker :: "forest \<Rightarrow> string \<Rightarrow> bool list \<Rightarrow> forest result"

definition Mask_init :: "bool \<Rightarrow> Mask" where
  "Mask_init keep_masked_pixels =
     (if keep_masked_pixels then \<lparr>masker = set_ivar_to_zero\<rparr> else \<lparr>masker = remove_pixels\<rparr>)"

text \<open>
  \<^verbatim>\<open>for param in Forest.mask_fields: self._masker(forest, param, w)\<close>, the last two
  lines of \<^verbatim>\<open>apply_mask\<close>.
\<close>

fun mask_all ::
  "(forest \<Rightarrow> string \<Rightarrow> bool list \<Rightarrow> forest result) \<Rightarrow> string list \<Rightarrow> forest \<Rightarrow> bool list
    \<Rightarrow> forest result" where
  "mask_all m [] f w = Inr f"
| "mask_all m (param # params) f w = bind (m f param w) (\<lambda>f'. mask_all m params f' w)"

subsection \<open>The absorption profile of \<^verbatim>\<open>dla_mask.py\<close>\<close>

text \<open>
  \<^verbatim>\<open>scipy.special.voigt_profile\<close> and the two wavelengths of \<^verbatim>\<open>ABSORBER_IGM\<close> are
  parameters.
\<close>

record physics =
  voigt_profile :: "real \<Rightarrow> real \<Rightarrow> real \<Rightarrow> real"
  LAMBDA_LYA :: real
  LAMBDA_LYB :: real

definition tau_lya :: "physics \<Rightarrow> real list \<Rightarrow> real \<Rightarrow> real \<Rightarrow> real list" where
  "tau_lya ph lambda z_abs nhi =
     (let e = 1.6021 / 10 ^ 19;
          epsilon0 = 8.8541 / 10 ^ 12;
          f = 0.4164;
          mp = 1.6726 / 10 ^ 27;
          me = 9.109 / 10 ^ 31;
          c = 2.9979 * 10 ^ 8;
          k = 1.3806 / 10 ^ 23;
          T = 5 * 10 ^ 4;
          gamma = 6.2648 * 10 ^ 8;
          b = sqrt (2 * k * T / mp);
          small_gamma = gamma * LAMBDA_LYA ph / (4 * pi) / 10 ^ 10;
          nhi_m2 = 10 powr nhi * 10 ^ 4;
          tau = nhi_m2 * pi * e\<^sup>2 * f * LAMBDA_LYA ph / 10 ^ 10 / (4 * pi * epsilon0 * me * c)
      in map (\<lambda>l. tau * voigt_profile ph (c * (l / (1 + z_abs) / LAMBDA_LYA ph - 1)) (b / sqrt 2)
                      small_gamma) lambda)"

definition tau_lyb :: "physics \<Rightarrow> real list \<Rightarrow> real \<Rightarrow> real \<Rightarrow> real list" where
  "tau_lyb ph lambda z_abs nhi =
     (let e = 1.6021 / 10 ^ 19;
          epsilon0 = 8.8541 / 10 ^ 12;
          f = 0.07912;
          mp = 1.6726 / 10 ^ 27;
          me = 9.109 / 10 ^ 31;
          c = 2.9979 * 10 ^ 8;
          k = 1.3806 / 10 ^ 23;
          T = 5 * 10 ^ 4;
          gamma = 4.1641 / 10;
          b = sqrt (2 * k * T / mp);
          small_gamma = gamma * LAMBDA_LYB ph / (4 * pi) / 10 ^ 10;
          nhi_m2 = 10 powr nhi * 10 ^ 4;
          tau = nhi_m2 * pi * e\<^sup>2 * f * LAMBDA_LYB ph / 10 ^ 10 / (4 * pi * epsilon0 * me * c)
      in map (\<lambda>l. tau * voigt_profile ph (c * (l / (1 + z_abs) / LAMBDA_LYB ph - 1)) (b / sqrt 2)
                      small_gamma) lambda)"

definition dla_profile :: "physics \<Rightarrow> real list \<Rightarrow> real \<Rightarrow> real \<Rightarrow> real list" where
  "dla_profile ph lambda z_abs nhi =
     map (\<lambda>(a, b). exp (- a - b)) (zip (tau_lya ph lambda z_abs nhi) (tau_lyb ph lambda z_abs nhi))"

subsection \<open>\<^verbatim>\<open>DlaMask\<close>\<close>

text \<open>
  A row of the mask file, read with the column names
  \<^verbatim>\<open>('type', 'wave_min', 'wave_max', 'frame')\<close>.
\<close>

record mask_row =
  row_type :: string
  wave_min :: real
  wave_max :: real
  frame :: string

text \<open>
  The attribute \<^verbatim>\<open>self.mask\<close>. Without a mask file it is an empty table with the four
  columns. With one, \<^verbatim>\<open>__init__\<close> reads the table and then assigns
  \<^verbatim>\<open>self.mask = self.mask['frame'] == 'RF_DLA'\<close>: the comparison of a column with a
  string, which is an array of booleans, one per row of the file.
\<close>

datatype mask_attr = Table "mask_row list" | Booleans "bool list"

definition load_mask :: "mask_row list result option \<Rightarrow> mask_attr result" where
  "load_mask mask_file =
     (case mask_file of
        None \<Rightarrow> Inr (Table [])
      | Some (Inl e) \<Rightarrow> Inl MaskError
      | Some (Inr rows) \<Rightarrow> Inr (Booleans (map (\<lambda>r. frame r = ''RF_DLA'') rows)))"

text \<open>
  The catalogue, grouped by line of sight: every id of the catalogue is mapped to the
  list of its pairs \<^verbatim>\<open>(z_abs, nhi)\<close>, in the order of the catalogue.
\<close>

definition group_los_ids :: "(int \<times> real \<times> real) list \<Rightarrow> int \<Rightarrow> (real \<times> real) list option" where
  "group_los_ids cat i =
     (if i \<in> fst ` set cat then Some (map snd (filter (\<lambda>r. fst r = i) cat)) else None)"

record DlaMask = Mask +
  los_ids :: "int \<Rightarrow> (real \<times> real) list option"
  dla_mask_limit :: real
  mask :: mask_attr

text \<open>
  \<^verbatim>\<open>dla_transmission = np.ones(len(lambda))\<close>, multiplied in place by the profile of
  every absorber.
\<close>

definition dla_transmission :: "physics \<Rightarrow> real list \<Rightarrow> (real \<times> real) list \<Rightarrow> real list" where
  "dla_transmission ph lambda dlas =
     foldl (\<lambda>t (z_abs, nhi). map (\<lambda>(x, y). x * y) (zip t (dla_profile ph lambda z_abs nhi)))
       (replicate (length lambda) 1) dlas"

text \<open>
  The two nested loops over the mask and over the absorbers. On a table,
  \<^verbatim>\<open>mask_range\<close> is a row. On an array of booleans it is a numpy boolean, and
  \<^verbatim>\<open>mask_range['wave_min']\<close> raises IndexError in the first iteration of the inner loop.
\<close>

definition outside_range :: "real list \<Rightarrow> mask_row \<Rightarrow> real \<Rightarrow> bool list" where
  "outside_range lambda mask_range z_abs =
     map (\<lambda>l. l / (1 + z_abs) < wave_min mask_range \<or> l / (1 + z_abs) > wave_max mask_range) lambda"

definition and_arrays :: "bool list \<Rightarrow> bool list \<Rightarrow> bool list" where
  "and_arrays w u = map (\<lambda>(a, b). a \<and> b) (zip w u)"

definition mask_ranges ::
  "mask_attr \<Rightarrow> real list \<Rightarrow> (real \<times> real) list \<Rightarrow> bool list \<Rightarrow> bool list result" where
  "mask_ranges m lambda dlas w =
     (case m of
        Table rows \<Rightarrow>
          Inr (foldl (\<lambda>w1 mask_range.
                 foldl (\<lambda>w2 (z_abs, nhi). and_arrays w2 (outside_range lambda mask_range z_abs))
                   w1 dlas) w rows)
      | Booleans bs \<Rightarrow> if bs \<noteq> [] \<and> dlas \<noteq> [] then Inl IndexError else Inr w)"

text \<open>\<^verbatim>\<open>forest.transmission_correction *= dla_transmission\<close>, in place.\<close>

definition imul :: "ndarray \<Rightarrow> real list \<Rightarrow> ndarray result" where
  "imul v t =
     (case v of
        Arr1 xs \<Rightarrow>
          if length xs = length t then Inr (Arr1 (map (\<lambda>(x, y). x * y) (zip xs t)))
          else if length t = 1 then Inr (Arr1 (map (\<lambda>x. x * hd t) xs))
          else Inl (ValueError ''operands could not be broadcast together'')
      | Arr2 rows \<Rightarrow>
          if list_all (\<lambda>r. length r = length t) rows
          then Inr (Arr2 (map (\<lambda>r. map (\<lambda>(x, y). x * y) (zip r t)) rows))
          else if length t = 1 then Inr (Arr2 (map (map (\<lambda>x. x * hd t)) rows))
          else Inl (ValueError ''operands could not be broadcast together''))"

text \<open>
  \<^verbatim>\<open>apply_mask\<close>. The wavelengths are computed before the catalogue is looked up. The
  logarithms of the wavelengths of a forest are a one-dimensional array; with a
  two-dimensional one the in-place product of the transmission with a profile fails.
\<close>

definition apply_mask :: "physics \<Rightarrow> string list \<Rightarrow> DlaMask \<Rightarrow> forest \<Rightarrow> forest result" where
  "apply_mask ph mask_fields self f =
     bind (getattr f ''log_lambda'') (\<lambda>ll.
       case los_ids self (los_id f) of
         None \<Rightarrow> Inr f
       | Some dlas \<Rightarrow>
           (case ll of
              Arr2 rows \<Rightarrow> Inl (ValueError ''non-broadcastable output operand'')
            | Arr1 xs \<Rightarrow>
                (let lambda = pow10 xs;
                     t = dla_transmission ph lambda dlas;
                     w0 = map (\<lambda>x. x > dla_mask_limit self) t
                 in bind (mask_ranges (mask self) lambda dlas w0) (\<lambda>w.
                    bind (getattr f ''transmission_correction'') (\<lambda>tc.
                    bind (imul tc t) (\<lambda>tc'.
                      mask_all (masker self) mask_fields
                        (setattr f ''transmission_correction'' tc') w))))))"

section \<open>The blinding of \<^verbatim>\<open>DesiData\<close>\<close>

text \<open>
  The state that \<^verbatim>\<open>set_blinding\<close> touches: \<^verbatim>\<open>self.blinding\<close>, the class attribute
  \<^verbatim>\<open>Forest.blinding\<close> and the warnings sent to the logger.
\<close>

record desi_state =
  blinding :: string
  Forest_blinding :: string
  warnings :: "string list"

definition blinding_warning :: "string \<Rightarrow> string \<Rightarrow> string \<Rightarrow> string" where
  "blinding_warning selected why engaged =
     ''Selected blinding, '' @ selected @ '' is being ignored as '' @ why @ '' blinded. ''
       @ [CHR 0x27] @ engaged @ [CHR 0x27] @ '' blinding engaged''"

definition override :: "desi_state \<Rightarrow> string \<Rightarrow> string \<Rightarrow> desi_state" where
  "override s why engaged =
     (if blinding s \<noteq> engaged
      then s\<lparr>warnings := warnings s @ [blinding_warning (blinding s) why engaged],
             blinding := engaged\<rparr>
      else s)"

definition set_blinding :: "desi_state \<Rightarrow> bool \<Rightarrow> bool \<Rightarrow> desi_state" where
  "set_blinding self is_mock is_sv =
     (let s = (if is_mock then override self ''mocks should not be'' ''none''
               else if is_sv then override self ''SV data should not be'' ''none''
               else override self ''data should be'' ''corr_yshift'')
      in s\<lparr>Forest_blinding := blinding s\<rparr>)"

section \<open>Concrete inputs\<close>

text \<open>
  A small instance of the collaborators of \<^verbatim>\<open>picca_Pk1D.py\<close>, used where a property
  is run on concrete inputs: the splitter cuts the eligible range into parts of equal
  size, the filler counts the pixels of zero inverse variance, the powers are squares and
  the corrections are constant.
\<close>

definition sample_split_forest :: "split_call \<Rightarrow> split" where
  "sample_split_forest c =
     (let n = nat (sc_num_parts c);
          m = (length (sc_coord c) - sc_first_pixel_index c) div n;
          part = (\<lambda>xs i. take m (drop (sc_first_pixel_index c + i * m) xs))
      in \<lparr>mean_z_array = map real [0..<n],
          coord_array = map (part (sc_coord c)) [0..<n],
          delta_array = map (part (sc_delta c)) [0..<n],
          exposures_diff_array = map (part (sc_exposures_diff c)) [0..<n],
          ivar_array = map (part (sc_ivar c)) [0..<n]\<rparr>)"

definition sample_pk1d :: pk1d where
  "sample_pk1d =
     \<lparr>split_forest = sample_split_forest,
      rebin_diff_noise = (\<lambda>dl coord diff. diff),
      fill_masked_pixels = (\<lambda>dl coord dlt diff iv no_fill.
         (coord, dlt, diff, iv, int (length (filter (\<lambda>x. x = 0) iv)))),
      compute_pk_raw = (\<lambda>dl dlt lin.
         (map (\<lambda>i. real i / 100) [0..<length dlt], map (\<lambda>x. x * x * dl) dlt)),
      compute_pk_noise = (\<lambda>dl iv diff run lin.
         (map (\<lambda>x. if run \<and> x \<noteq> 0 then dl / x else 0) iv, map (\<lambda>x. x * x * dl / 2) diff)),
      compute_correction_reso_matrix = (\<lambda>m k dl n. map (\<lambda>_. 1) k),
      compute_correction_reso = (\<lambda>dl reso k. map (\<lambda>_. 2) k),
      speed_light = 299792458\<rparr>"

definition sample_args :: args where
  "sample_args =
     \<lparr>SNR_min = 2, reso_max = 85, lambda_obs_min = 50, nb_part = 3, nb_pixel_min = 3,
      nb_pixel_masked_max = 1, no_apply_filling = False, noise_estimate = ''diff'',
      disable_reso_matrix = False, force_output_in_velocity = False\<rparr>"

text \<open>
  Four pixels at the wavelengths 10, 100, 1000 and 10000; the last three are past the
  floor of \<open>sample_args\<close>.
\<close>

definition sample_delta :: Delta where
  "sample_delta =
     \<lparr>mean_snr = 3, mean_reso = 70, log_lambda = [1, 2, 3, 4], delta = [1, 2, 3, 4],
      exposures_diff = [0, 2, 0, 2], ivar = [1, 1, 1, 1], resolution_matrix = None\<rparr>"

definition linear_env :: binning where
  "linear_env = \<lparr>linear_binning = True, delta_lam = 1, reso_correction = Gaussian\<rparr>"

text \<open>
  Seven pixels, six of them past the floor of \<open>sample_args\<close>: two parts of three pixels,
  the first with two masked pixels, the second with none.
\<close>

definition masked_delta :: Delta where
  "masked_delta =
     \<lparr>mean_snr = 3, mean_reso = 70, log_lambda = [1, 2, 3, 4, 5, 6, 7], delta = [1, 2, 3, 4, 5, 6, 7],
      exposures_diff = [0, 2, 0, 2, 0, 2, 0], ivar = [1, 0, 0, 1, 1, 1, 1], resolution_matrix = None\<rparr>"

text \<open>Three pixels spaced by 0.009 in the logarithm of the wavelength.\<close>

definition log_delta :: Delta where
  "log_delta =
     \<lparr>mean_snr = 3, mean_reso = 70, log_lambda = [0, 0.009, 0.018], delta = [1, 2, 3],
      exposures_diff = [0, 2, 0], ivar = [1, 1, 1], resolution_matrix = None\<rparr>"

text \<open>
  Two spectra of two pixels each: the first is classified as linear with bin width 9, the
  second as linear with bin width 90. Under \<open>short_args\<close> the first has too few pixels
  past the floor and the second is processed.
\<close>

definition short_delta :: Delta where
  "short_delta =
     \<lparr>mean_snr = 3, mean_reso = 70, log_lambda = [0, 1], delta = [1, 2],
      exposures_diff = [0, 2], ivar = [1, 1], resolution_matrix = None\<rparr>"

definition wide_delta :: Delta where
  "wide_delta =
     \<lparr>mean_snr = 3, mean_reso = 70, log_lambda = [1, 2], delta = [1, 2],
      exposures_diff = [0, 2], ivar = [1, 1], resolution_matrix = None\<rparr>"

definition short_args :: args where
  "short_args = sample_args\<lparr>lambda_obs_min := 5, nb_pixel_min := 2\<rparr>"

text \<open>
  A forest of three pixels with a resolution matrix of two rows, a keep-mask that masks
  its middle pixel, and a mask of one absorber on line of sight 7. The Voigt profile of
  \<open>sample_physics\<close> vanishes, so that every transmission is 1.
\<close>

definition sample_forest :: forest where
  "sample_forest =
     \<lparr>los_id = 7,
      attrs = map_of [(''log_lambda'', Arr1 [1, 2, 3]), (''flux'', Arr1 [5, 6, 7]),
                      (''ivar'', Arr1 [1, 1, 1]), (''transmission_correction'', Arr1 [1, 1, 1]),
                      (''resolution_matrix'', Arr2 [[1, 2, 3], [4, 5, 6]])]\<rparr>"

definition sample_mask_fields :: "string list" where
  "sample_mask_fields = [''log_lambda'', ''ivar'', ''resolution_matrix'']"

definition keep_mask :: "bool list" where
  "keep_mask = [True, False, True]"

definition sample_physics :: physics where
  "sample_physics = \<lparr>voigt_profile = (\<lambda>v sigma gamma. 0), LAMBDA_LYA = 1215.67, LAMBDA_LYB = 1025.72\<rparr>"

definition sample_dla_mask :: DlaMask where
  "sample_dla_mask =
     \<lparr>masker = set_ivar_to_zero, los_ids = group_los_ids [(7, 2.5, 20.3)], dla_mask_limit = 0.8,
      mask = Table []\<rparr>"

section \<open>Notions of the specification\<close>

text \<open>
  The number of masked pixels that the filler reports for a part (\<open>None\<close> when the
  arrays of the splitter have no such part).
\<close>

definition part_masked :: "pk1d \<Rightarrow> args \<Rightarrow> binning \<Rightarrow> split \<Rightarrow> nat \<Rightarrow> int option" where
  "part_masked lib a env sp i =
     (case filled lib a env sp i of
        Inl e \<Rightarrow> None
      | Inr (coord_new, delta_new, diff_new, ivar_new, num_masked_pixels) \<Rightarrow> Some num_masked_pixels)"

text \<open>A pixel strictly past the observed-wavelength floor.\<close>

definition past_floor :: "args \<Rightarrow> real \<Rightarrow> bool" where
  "past_floor a x = (10 powr x > lambda_obs_min a)"

text \<open>
  The five noise estimates, and the noise term of the specification at wavenumber bin
  \<open>j\<close>: the pipeline noise power, the difference power, or the mean of the difference
  power over the bins whose wavenumber lies in the band.
\<close>

definition noise_modes :: "string set" where
  "noise_modes = {''pipeline'', ''diff'', ''rebin_diff'', ''mean_diff'', ''mean_rebin_diff''}"



text \<open>
  The selection of an array by a keep-mask, and what the two maskers make of a field:
  the field sliced (the resolution matrix along its second axis, any other array along
  its first), or zeroed where the keep-mask is false.
\<close>

definition select :: "'a list \<Rightarrow> bool list \<Rightarrow> 'a list" where
  "select xs w = map fst (filter snd (zip xs w))"

definition sliced :: "string \<Rightarrow> ndarray \<Rightarrow> bool list \<Rightarrow> ndarray" where
  "sliced param v w =
     (case v of
        Arr1 xs \<Rightarrow> Arr1 (select xs w)
      | Arr2 rows \<Rightarrow>
          if param = ''resolution_matrix'' then Arr2 (map (\<lambda>r. select r w) rows)
          else Arr2 (select rows w))"

definition zeroed :: "ndarray \<Rightarrow> bool list \<Rightarrow> ndarray" where
  "zeroed v w =
     (case v of
        Arr1 xs \<Rightarrow> Arr1 (map (\<lambda>i. if w ! i then xs ! i else 0) [0..<length xs])
      | Arr2 rows \<Rightarrow> Arr2 (map (\<lambda>i. if w ! i then rows ! i else map (\<lambda>_. 0) (rows ! i)) [0..<length rows]))"

text \<open>
  The number of pixels of a field: the length of a one-dimensional array, the number of
  columns of the resolution matrix. A field is maskable by \<open>w\<close> when it exists and has as
  many pixels as \<open>w\<close> has entries.
\<close>

definition pixels :: "string \<Rightarrow> ndarray \<Rightarrow> nat" where
  "pixels param v =
     (case v of
        Arr1 xs \<Rightarrow> length xs
      | Arr2 rows \<Rightarrow> if param = ''resolution_matrix'' then length (hd rows) else length rows)"

definition maskable :: "forest \<Rightarrow> bool list \<Rightarrow> string \<Rightarrow> bool" where
  "maskable f w param =
     (case attrs f param of
        None \<Rightarrow> False
      | Some (Arr1 xs) \<Rightarrow> param \<noteq> ''resolution_matrix'' \<and> length xs = length w
      | Some (Arr2 rows) \<Rightarrow>
          if param = ''resolution_matrix'' then rows \<noteq> [] \<and> list_all (\<lambda>r. length r = length w) rows
          else length rows = length w)"

text \<open>The rest-frame wavelength of a pixel lies outside an exclusion range.\<close>

definition outside :: "real \<Rightarrow> real \<Rightarrow> mask_row \<Rightarrow> bool" where
  "outside l z_abs r = (l / (1 + z_abs) < wave_min r \<or> l / (1 + z_abs) > wave_max r)"

section \<open>Properties\<close>

lemmas pk_defs = process_file_def num_parts_def max_num_parts_def remaining_pixels_def
  first_pixel_index_def selected_pixels_def pow10_def split_forest_call_def process_part_def
  filled_def rebinned_def getitem_def correction_of_def combine_pk_def package_def
  np_broadcast_def np_bool_index_def np_mean_def

lemmas sample_defs = sample_pk1d_def sample_split_forest_def sample_args_def sample_delta_def
  linear_env_def

lemmas run_defs = pk_defs sample_defs masked_delta_def Let_def upt_rec

lemmas binning_defs = check_linear_binning_def diff_lambda_def diff_log_lambda_def np_diff_def
  pow10_def np_percentile_def np_median_def

subsection \<open>The binning classifier\<close>





text \<open>
  The second case is met as well: the pixels of \<open>log_delta\<close> are classified as
  log-binned with the bin width 0.009, their linear differences being more than 1e-6 apart.
\<close>

lemma np_percentile_pair:
  assumes "x \<le> y" and "0 \<le> q" and "q < 100"
  shows "np_percentile [x, y] q = x + (y - x) * (q / 100)"
proof -
  from assms have s: "sort [x, y] = [x, y]" by simp
  from assms have f: "\<lfloor>q / 100\<rfloor> = 0" by (simp add: floor_eq_iff)
  show ?thesis
    unfolding np_percentile_def s by (simp add: Let_def f)
qed

lemma ln10_ge_2: "2 \<le> ln (10 :: real)"
proof -
  have "exp (2 :: real) = exp 1 * exp 1"
    by (simp add: exp_add [symmetric])
  also have "\<dots> \<le> 3 * 3"
    by (intro mult_mono exp_le) simp_all
  finally have "exp (2 :: real) \<le> 10" by simp
  then show ?thesis by (simp add: ln_ge_iff)
qed

lemma pow_step: "1.018 \<le> (10 :: real) powr (9 / 1000)"
proof -
  define t where "t = 9 / 1000 * ln (10 :: real)"
  have p: "(10 :: real) powr (9 / 1000) = exp t"
    by (simp add: powr_def t_def)
  have "18 / 1000 \<le> t"
    unfolding t_def using ln10_ge_2 by simp
  with exp_ge_add_one_self [of t] have "1018 / 1000 \<le> exp t"
    by linarith
  then show ?thesis by (simp add: p)
qed

lemma check_log: "check_linear_binning log_delta = Inr (False, 0.009)"
proof -
  define a where "a = (10 :: real) powr (9 / 1000)"
  have a: "1.018 \<le> a" unfolding a_def by (rule pow_step)
  have p1: "(10 :: real) powr (9 / 1000) = a" by (simp add: a_def)
  have "(10 :: real) powr (9 / 500) = 10 powr (9 / 1000 + 9 / 1000)" by simp
  also have "\<dots> = a * a" unfolding a_def by (rule powr_add)
  finally have p2: "(10 :: real) powr (9 / 500) = a * a" .
  have dl: "diff_lambda log_delta = [a - 1, a * a - a]"
    by (simp add: diff_lambda_def log_delta_def np_diff_def pow10_def p1 p2)
  have dg: "diff_log_lambda log_delta = [9 / 1000, 9 / 1000]"
    by (simp add: diff_log_lambda_def log_delta_def np_diff_def)
  have "(a - 1) * (a - 1) \<ge> 0.018 * 0.018"
    using a by (intro mult_mono) simp_all
  then have sq: "a * a - a - (a - 1) \<ge> 0.018 * 0.018"
    by (simp add: algebra_simps)
  then have le: "a - 1 \<le> a * a - a" by simp
  have gap: "np_percentile [a - 1, a * a - a] 25 - np_percentile [a - 1, a * a - a] 5
      = (a * a - a - (a - 1)) * 0.2"
    by (simp add: np_percentile_pair [OF le] algebra_simps)
  have big: "\<not> np_percentile [a - 1, a * a - a] 25 - np_percentile [a - 1, a * a - a] 5 < 1 / 10 ^ 6"
    unfolding gap using sq by simp
  have g5: "np_percentile [9 / 1000, 9 / 1000 :: real] 5 = 9 / 1000"
    and g25: "np_percentile [9 / 1000, 9 / 1000 :: real] 25 = 9 / 1000"
    by (simp_all add: np_percentile_pair)
  have med: "np_median [9 / 1000, 9 / 1000 :: real] = 9 / 1000"
    by (simp add: np_median_def)
  show ?thesis
    using big by (simp add: check_linear_binning_def dl dg g5 g25 med Let_def)
qed

subsection \<open>General lemmas on the driver\<close>

lemma bind_Inr_iff: "bind m f = Inr y \<longleftrightarrow> (\<exists>x. m = Inr x \<and> f x = Inr y)"
  by (cases m) auto

lemma bind_Inl_iff: "bind m f = Inl e \<longleftrightarrow> (m = Inl e \<or> (\<exists>x. m = Inr x \<and> f x = Inl e))"
  by (cases m) auto

lemma getitem_Inr_iff: "getitem xs i = Inr x \<longleftrightarrow> i < length xs \<and> x = xs ! i"
  by (auto simp: getitem_def)

lemma num_parts_value:
  assumes "nb_pixel_min a \<noteq> 0"
  shows "num_parts a d = Inr (min (nb_part a) (remaining_pixels a d div nb_pixel_min a))"
  using assms by (simp add: num_parts_def max_num_parts_def)

lemma div_ge_one:
  fixes r m :: int
  assumes "1 \<le> m" "m \<le> r"
  shows "1 \<le> r div m"
proof -
  have "m div m \<le> r div m"
    using assms by (intro zdiv_mono1) auto
  with assms show ?thesis by simp
qed

lemma first_pixel_index_takeWhile:
  "first_pixel_index sel = length (takeWhile (\<lambda>b. \<not> b) sel)"
proof (cases "True \<in> set sel")
  case True
  then show ?thesis by (simp add: first_pixel_index_def)
next
  case False
  then have tw: "takeWhile (\<lambda>b. \<not> b) sel = sel"
    by (intro takeWhile_eq_all_conv [THEN iffD2]) auto
  from False show ?thesis
    unfolding first_pixel_index_def by (simp only: tw if_False)
qed

lemma sorted_filter_dropWhile:
  assumes "sorted xs" and mono: "\<And>x y. P x \<Longrightarrow> x \<le> y \<Longrightarrow> P y"
  shows "filter P xs = dropWhile (\<lambda>x. \<not> P x) xs"
  using assms(1)
proof (induction xs)
  case Nil
  then show ?case by simp
next
  case (Cons x xs)
  show ?case
  proof (cases "P x")
    case True
    with Cons.prems mono have "\<forall>y\<in>set xs. P y" by auto
    then have "filter P xs = xs" by simp
    with True show ?thesis by simp
  next
    case False
    with Cons show ?thesis by simp
  qed
qed

lemma past_floor_mono: "past_floor a x \<Longrightarrow> x \<le> y \<Longrightarrow> past_floor a y"
  unfolding past_floor_def
  by (meson less_le_trans one_le_numeral powr_mono)

lemma remaining_pixels_sorted:
  assumes "sorted (log_lambda d)"
  shows "remaining_pixels a d = int (length (filter (past_floor a) (log_lambda d)))"
proof -
  let ?xs = "log_lambda d"
  have sel: "selected_pixels a d = map (past_floor a) ?xs"
    by (simp add: selected_pixels_def pow10_def past_floor_def)
  have "takeWhile (\<lambda>b. \<not> b) (map (past_floor a) ?xs) = map (past_floor a) (takeWhile (\<lambda>x. \<not> past_floor a x) ?xs)"
    by (simp add: takeWhile_map comp_def)
  then have fpi: "first_pixel_index (selected_pixels a d) = length (takeWhile (\<lambda>x. \<not> past_floor a x) ?xs)"
    by (simp add: first_pixel_index_takeWhile sel)
  have "length ?xs = length (takeWhile (\<lambda>x. \<not> past_floor a x) ?xs) + length (dropWhile (\<lambda>x. \<not> past_floor a x) ?xs)"
    by (metis length_append takeWhile_dropWhile_id)
  moreover have "filter (past_floor a) ?xs = dropWhile (\<lambda>x. \<not> past_floor a x) ?xs"
    using assms past_floor_mono by (rule sorted_filter_dropWhile)
  ultimately show ?thesis
    by (simp add: remaining_pixels_def fpi)
qed

lemma process_file_None_iff:
  "process_file lib a env d = Inr None
     \<longleftrightarrow> mean_snr d \<le> SNR_min a \<or> mean_reso d \<ge> reso_max a \<or> remaining_pixels a d < nb_pixel_min a"
  by (auto simp: process_file_def Let_def bind_Inr_iff)

lemma package_Inr:
  assumes "package lib a env k pk_raw pk_noise pk_diff corr pk_opt lambda_new mean_z i m = Inr e"
  shows "\<exists>pk0. pk_opt = Some pk0 \<and> i < length mean_z
           \<and> e = \<lparr>out_k = (if force_output_in_velocity a \<and> linear_binning env
                            then map (\<lambda>x. x / (speed_light lib / 1000 / np_mean lambda_new)) k else k),
                   out_pk_raw = pk_raw, out_pk_noise = pk_noise, out_pk_diff = pk_diff,
                   out_correction_reso = corr,
                   out_pk = (if force_output_in_velocity a \<and> linear_binning env
                             then map (\<lambda>x. x * (speed_light lib / 1000 / np_mean lambda_new)) pk0 else pk0),
                   out_mean_z = mean_z ! i, out_num_masked_pixels = m\<rparr>"
  using assms
  by (cases pk_opt) (auto simp: package_def Let_def bind_Inr_iff getitem_Inr_iff)

lemma process_part_Some:
  assumes "process_part lib a env d sp i = Inr (Some e)"
      and "filled lib a env sp i = Inr (lambda_new, delta_new, diff_new, ivar_new, m)"
      and "compute_pk_raw lib (delta_lam env) delta_new (linear_binning env) = (k, pk_raw)"
      and "compute_pk_noise lib (delta_lam env) ivar_new diff_new (noise_estimate a = ''pipeline'')
             (linear_binning env) = (pk_noise, pk_diff)"
  shows "m \<le> nb_pixel_masked_max a \<and> i < length (mean_z_array sp)
       \<and> (\<exists>pk0. combine_pk (noise_estimate a) k pk_raw pk_noise pk_diff
                    (correction_of lib env d k lambda_new) = Inr (Some pk0)
             \<and> e = \<lparr>out_k = (if force_output_in_velocity a \<and> linear_binning env
                            then map (\<lambda>x. x / (speed_light lib / 1000 / np_mean lambda_new)) k else k),
                   out_pk_raw = pk_raw, out_pk_noise = pk_noise, out_pk_diff = pk_diff,
                   out_correction_reso = correction_of lib env d k lambda_new,
                   out_pk = (if force_output_in_velocity a \<and> linear_binning env
                             then map (\<lambda>x. x * (speed_light lib / 1000 / np_mean lambda_new)) pk0 else pk0),
                   out_mean_z = mean_z_array sp ! i, out_num_masked_pixels = m\<rparr>)"
proof -
  from assms(1,2) have le: "m \<le> nb_pixel_masked_max a"
    by (auto simp: process_part_def split: if_splits)
  from assms le obtain pk_opt e' where
      c: "combine_pk (noise_estimate a) k pk_raw pk_noise pk_diff (correction_of lib env d k lambda_new) = Inr pk_opt"
    and p: "package lib a env k pk_raw pk_noise pk_diff (correction_of lib env d k lambda_new) pk_opt
              lambda_new (mean_z_array sp) i m = Inr e"
    by (auto simp: process_part_def Let_def bind_Inr_iff)
  from package_Inr [OF p] c le show ?thesis by auto
qed

lemma process_part_Inr:
  assumes "process_part lib a env d sp i = Inr r"
  shows "\<exists>m. part_masked lib a env sp i = Some m
           \<and> (r = None \<longleftrightarrow> m > nb_pixel_masked_max a)
           \<and> (\<forall>e. r = Some e \<longrightarrow> out_num_masked_pixels e = m \<and> out_mean_z e = mean_z_array sp ! i)"
proof -
  from assms obtain ln dn fn iv m where f: "filled lib a env sp i = Inr (ln, dn, fn, iv, m)"
    by (auto simp: process_part_def bind_Inr_iff)
  obtain k pk_raw where kr: "compute_pk_raw lib (delta_lam env) dn (linear_binning env) = (k, pk_raw)"
    by (cases "compute_pk_raw lib (delta_lam env) dn (linear_binning env)") auto
  obtain pk_noise pk_diff where nd: "compute_pk_noise lib (delta_lam env) iv fn (noise_estimate a = ''pipeline'')
             (linear_binning env) = (pk_noise, pk_diff)"
    by (cases "compute_pk_noise lib (delta_lam env) iv fn (noise_estimate a = ''pipeline'') (linear_binning env)") auto
  have pm: "part_masked lib a env sp i = Some m"
    by (simp add: part_masked_def f)
  show ?thesis
  proof (cases r)
    case None
    with assms f have "m > nb_pixel_masked_max a"
      by (auto simp: process_part_def Let_def bind_Inr_iff kr nd split: if_splits)
    with None pm show ?thesis by simp
  next
    case (Some e)
    with assms process_part_Some [OF _ f kr nd, of d e] have "m \<le> nb_pixel_masked_max a"
      and "out_num_masked_pixels e = m" and "out_mean_z e = mean_z_array sp ! i"
      by auto
    with Some pm show ?thesis by auto
  qed
qed

lemma process_part_skip:
  assumes "part_masked lib a env sp i = Some m"
  shows "process_part lib a env d sp i = Inr None \<longleftrightarrow> m > nb_pixel_masked_max a"
proof
  assume "process_part lib a env d sp i = Inr None"
  from process_part_Inr [OF this] assms show "m > nb_pixel_masked_max a" by auto
next
  assume gt: "m > nb_pixel_masked_max a"
  from assms obtain ln dn fn iv where "filled lib a env sp i = Inr (ln, dn, fn, iv, m)"
    by (auto simp: part_masked_def split: sum.splits)
  with gt show "process_part lib a env d sp i = Inr None"
    by (simp add: process_part_def)
qed

lemma emitted_parts:
  assumes "parts_loop (process_part lib a env d sp) is = Inr l"
  shows "(\<forall>i\<in>set is. part_masked lib a env sp i \<noteq> None)
       \<and> map (\<lambda>e. (out_mean_z e, out_num_masked_pixels e)) l
           = map (\<lambda>i. (mean_z_array sp ! i, the (part_masked lib a env sp i)))
               (filter (\<lambda>i. the (part_masked lib a env sp i) \<le> nb_pixel_masked_max a) is)"
  using assms
proof (induction "is" arbitrary: l)
  case Nil
  then show ?case by simp
next
  case (Cons i "is")
  from Cons.prems obtain r rs where r: "process_part lib a env d sp i = Inr r"
    and rs: "parts_loop (process_part lib a env d sp) is = Inr rs"
    and l: "l = (case r of None \<Rightarrow> rs | Some e \<Rightarrow> e # rs)"
    by (auto simp: bind_Inr_iff)
  from process_part_Inr [OF r] obtain m where m: "part_masked lib a env sp i = Some m"
    and none: "r = None \<longleftrightarrow> m > nb_pixel_masked_max a"
    and some: "\<forall>e. r = Some e \<longrightarrow> out_num_masked_pixels e = m \<and> out_mean_z e = mean_z_array sp ! i"
    by blast
  from Cons.IH [OF rs] m none some l show ?case
    by (cases r) auto
qed


lemma parts_loop_unbound:
  assumes "\<forall>i\<in>set is. f i = Inr None \<or> f i = Inl UnboundLocalError"
      and "\<exists>i\<in>set is. f i = Inl UnboundLocalError"
  shows "parts_loop f is = Inl UnboundLocalError"
  using assms
proof (induction "is")
  case Nil
  then show ?case by simp
next
  case (Cons i "is")
  show ?case
  proof (cases "f i = Inl UnboundLocalError")
    case True
    then show ?thesis by simp
  next
    case False
    with Cons.prems have "f i = Inr None" and "\<exists>j\<in>set is. f j = Inl UnboundLocalError"
      and "\<forall>i\<in>set is. f i = Inr None \<or> f i = Inl UnboundLocalError"
      by auto
    with Cons.IH show ?thesis by simp
  qed
qed

lemma combine_pk_unassigned:
  assumes "mode \<notin> noise_modes"
  shows "combine_pk mode k pk_raw pk_noise pk_diff corr = Inr None"
  using assms by (simp add: combine_pk_def noise_modes_def)

lemma process_part_unbound:
  assumes "noise_estimate a \<notin> noise_modes"
      and "part_masked lib a env sp i = Some m"
  shows "process_part lib a env d sp i
           = (if m > nb_pixel_masked_max a then Inr None else Inl UnboundLocalError)"
proof -
  from assms(2) obtain ln dn fn iv where f: "filled lib a env sp i = Inr (ln, dn, fn, iv, m)"
    by (auto simp: part_masked_def split: sum.splits)
  show ?thesis
    by (simp add: process_part_def f Let_def combine_pk_unassigned [OF assms(1)] package_def
        split: prod.splits)
qed




text \<open>Runs of \<^verbatim>\<open>process_file\<close> on the concrete inputs.\<close>

lemma run_masked:
  "process_file sample_pk1d sample_args linear_env masked_delta
     = Inr (Some [\<lparr>out_k = [0, 1 / 100, 2 / 100], out_pk_raw = [25, 36, 49], out_pk_noise = [0, 0, 0],
                    out_pk_diff = [0, 2, 0], out_correction_reso = [2, 2, 2],
                    out_pk = [25 / 2, 17, 49 / 2], out_mean_z = 1, out_num_masked_pixels = 0\<rparr>])"
  by (simp add: run_defs)

lemma masked_parts:
  "part_masked sample_pk1d sample_args linear_env
     (split_forest sample_pk1d (split_forest_call sample_args linear_env masked_delta 2)) 0 = Some 2"
  "part_masked sample_pk1d sample_args linear_env
     (split_forest sample_pk1d (split_forest_call sample_args linear_env masked_delta 2)) 1 = Some 0"
  by (simp_all add: part_masked_def run_defs)

lemma masked_num_parts: "num_parts sample_args masked_delta = Inr 2"
  by (simp add: run_defs)

subsection \<open>The final power\<close>




subsection \<open>Rejected spectra and rejected parts\<close>

text \<open>
  C4. \<^verbatim>\<open>process_file\<close> returns \<^verbatim>\<open>None\<close> exactly when the mean SNR is at most the
  floor, or the mean resolution at least the ceiling, or fewer than \<^verbatim>\<open>nb_pixel_min\<close>
  pixels remain from the first pixel past the observed-wavelength floor; on an increasing
  coordinate array these are the pixels strictly past the floor. A part whose arrays exist
  is skipped, without an error, exactly when its masked-pixel count exceeds
  \<^verbatim>\<open>nb_pixel_masked_max\<close>. When a list is returned, its entries are, in order, those of
  the parts whose count does not exceed the maximum (identified here by their mean
  redshift and masked-pixel count).
\<close>

theorem process_file_rejections:
  "(process_file lib a env d = Inr None
      \<longleftrightarrow> mean_snr d \<le> SNR_min a \<or> mean_reso d \<ge> reso_max a \<or> remaining_pixels a d < nb_pixel_min a)
   \<and> (sorted (log_lambda d)
        \<longrightarrow> remaining_pixels a d = int (length (filter (past_floor a) (log_lambda d))))
   \<and> (\<forall>i m. part_masked lib a env sp i = Some m
        \<longrightarrow> (process_part lib a env d sp i = Inr None \<longleftrightarrow> m > nb_pixel_masked_max a))
   \<and> (\<forall>n pk_list. num_parts a d = Inr n \<and> process_file lib a env d = Inr (Some pk_list)
        \<longrightarrow> (\<forall>i<nat n. part_masked lib a env (split_forest lib (split_forest_call a env d n)) i \<noteq> None)
          \<and> map (\<lambda>e. (out_mean_z e, out_num_masked_pixels e)) pk_list
              = map (\<lambda>i. (mean_z_array (split_forest lib (split_forest_call a env d n)) ! i,
                           the (part_masked lib a env (split_forest lib (split_forest_call a env d n)) i)))
                  (filter (\<lambda>i. the (part_masked lib a env (split_forest lib (split_forest_call a env d n)) i)
                                 \<le> nb_pixel_masked_max a) [0..<nat n]))"
proof (intro conjI allI impI)
  show "process_file lib a env d = Inr None
      \<longleftrightarrow> mean_snr d \<le> SNR_min a \<or> mean_reso d \<ge> reso_max a \<or> remaining_pixels a d < nb_pixel_min a"
    by (rule process_file_None_iff)
next
  assume "sorted (log_lambda d)"
  then show "remaining_pixels a d = int (length (filter (past_floor a) (log_lambda d)))"
    by (rule remaining_pixels_sorted)
next
  fix i m assume "part_masked lib a env sp i = Some m"
  then show "process_part lib a env d sp i = Inr None \<longleftrightarrow> m > nb_pixel_masked_max a"
    by (rule process_part_skip)
next
  fix n pk_list i
  assume h: "num_parts a d = Inr n \<and> process_file lib a env d = Inr (Some pk_list)" and i: "i < nat n"
  then have "parts_loop (process_part lib a env d (split_forest lib (split_forest_call a env d n))) [0..<nat n] = Inr pk_list"
    by (auto simp: process_file_def Let_def bind_Inr_iff split: if_splits)
  from emitted_parts [OF this] i
  show "part_masked lib a env (split_forest lib (split_forest_call a env d n)) i \<noteq> None"
    by simp
next
  fix n pk_list
  assume h: "num_parts a d = Inr n \<and> process_file lib a env d = Inr (Some pk_list)"
  then have "parts_loop (process_part lib a env d (split_forest lib (split_forest_call a env d n))) [0..<nat n] = Inr pk_list"
    by (auto simp: process_file_def Let_def bind_Inr_iff split: if_splits)
  from emitted_parts [OF this]
  show "map (\<lambda>e. (out_mean_z e, out_num_masked_pixels e)) pk_list
              = map (\<lambda>i. (mean_z_array (split_forest lib (split_forest_call a env d n)) ! i,
                           the (part_masked lib a env (split_forest lib (split_forest_call a env d n)) i)))
                  (filter (\<lambda>i. the (part_masked lib a env (split_forest lib (split_forest_call a env d n)) i)
                                 \<le> nb_pixel_masked_max a) [0..<nat n])"
    by simp
qed

text \<open>
  \<open>masked_delta\<close> is rejected when its SNR is at the floor; otherwise six pixels remain,
  its first part (two masked pixels, one allowed) is skipped and its second part emitted.
\<close>

theorem process_file_rejections_witness:
  "process_file sample_pk1d sample_args linear_env (masked_delta\<lparr>mean_snr := 2\<rparr>) = Inr None
   \<and> sorted (log_lambda masked_delta)
   \<and> remaining_pixels sample_args masked_delta = 6
   \<and> int (length (filter (past_floor sample_args) (log_lambda masked_delta))) = 6
   \<and> process_part sample_pk1d sample_args linear_env masked_delta
        (split_forest sample_pk1d (split_forest_call sample_args linear_env masked_delta 2)) 0 = Inr None
   \<and> num_parts sample_args masked_delta = Inr 2
   \<and> map (\<lambda>i. (mean_z_array (split_forest sample_pk1d
                    (split_forest_call sample_args linear_env masked_delta 2)) ! i,
                 the (part_masked sample_pk1d sample_args linear_env
                    (split_forest sample_pk1d (split_forest_call sample_args linear_env masked_delta 2)) i)))
         (filter (\<lambda>i. the (part_masked sample_pk1d sample_args linear_env
                    (split_forest sample_pk1d (split_forest_call sample_args linear_env masked_delta 2)) i)
                       \<le> nb_pixel_masked_max sample_args) [0..<nat 2])
       = [(1, 0)]"
proof -
  let ?sp = "split_forest sample_pk1d (split_forest_call sample_args linear_env masked_delta 2)"
  note inst = process_file_rejections [of sample_pk1d sample_args linear_env masked_delta ?sp]
  note low = process_file_rejections
    [of sample_pk1d sample_args linear_env "masked_delta\<lparr>mean_snr := 2\<rparr>" ?sp, THEN conjunct1]
  have snr: "mean_snr (masked_delta\<lparr>mean_snr := 2\<rparr>) \<le> SNR_min sample_args"
    by (simp add: sample_args_def)
  from low snr
  have none: "process_file sample_pk1d sample_args linear_env (masked_delta\<lparr>mean_snr := 2\<rparr>) = Inr None"
    by simp
  have srt: "sorted (log_lambda masked_delta)"
    by (simp add: masked_delta_def)
  have rem: "remaining_pixels sample_args masked_delta = 6"
    by (simp add: run_defs)
  from inst [THEN conjunct2, THEN conjunct1] srt rem
  have cnt: "int (length (filter (past_floor sample_args) (log_lambda masked_delta))) = 6"
    by simp
  have gt: "2 > nb_pixel_masked_max sample_args"
    by (simp add: sample_args_def)
  from inst [THEN conjunct2, THEN conjunct2, THEN conjunct1] masked_parts(1) gt
  have skip: "process_part sample_pk1d sample_args linear_env masked_delta ?sp 0 = Inr None"
    by blast
  from inst [THEN conjunct2, THEN conjunct2, THEN conjunct2] masked_num_parts run_masked
  have "map (\<lambda>e. (out_mean_z e, out_num_masked_pixels e))
          [\<lparr>out_k = [0, 1 / 100, 2 / 100], out_pk_raw = [25, 36, 49], out_pk_noise = [0, 0, 0],
            out_pk_diff = [0, 2, 0], out_correction_reso = [2, 2, 2],
            out_pk = [25 / 2, 17, 49 / 2], out_mean_z = 1, out_num_masked_pixels = 0\<rparr>]
        = map (\<lambda>i. (mean_z_array ?sp ! i, the (part_masked sample_pk1d sample_args linear_env ?sp i)))
            (filter (\<lambda>i. the (part_masked sample_pk1d sample_args linear_env ?sp i)
                          \<le> nb_pixel_masked_max sample_args) [0..<nat 2])"
    by blast
  then have kept: "map (\<lambda>i. (mean_z_array ?sp ! i, the (part_masked sample_pk1d sample_args linear_env ?sp i)))
            (filter (\<lambda>i. the (part_masked sample_pk1d sample_args linear_env ?sp i)
                          \<le> nb_pixel_masked_max sample_args) [0..<nat 2]) = [(1, 0)]"
    by simp
  from none srt rem cnt skip masked_num_parts kept show ?thesis
    by (intro conjI)
qed

subsection \<open>The number of parts\<close>

text \<open>
  C5, as amended. For a spectrum that passes the selection cuts, with \<^verbatim>\<open>nb_pixel_min\<close>
  not zero, \<^verbatim>\<open>split_forest\<close> is called with the number of parts
  \<open>min nb_part ((total_pixels - first_pixel_index) // nb_pixel_min)\<close>, over which the loop
  then runs; this number is at least 1 when moreover \<^verbatim>\<open>nb_part\<close> and \<^verbatim>\<open>nb_pixel_min\<close>
  are at least 1.
\<close>

theorem num_parts_requested:
  assumes "\<not> (mean_snr d \<le> SNR_min a \<or> mean_reso d \<ge> reso_max a)"
      and "\<not> remaining_pixels a d < nb_pixel_min a"
      and "nb_pixel_min a \<noteq> 0"
  shows "num_parts a d = Inr (min (nb_part a) (remaining_pixels a d div nb_pixel_min a))
       \<and> process_file lib a env d =
           bind (parts_loop
                   (process_part lib a env d
                      (split_forest lib (split_forest_call a env d
                         (min (nb_part a) (remaining_pixels a d div nb_pixel_min a)))))
                   [0..<nat (min (nb_part a) (remaining_pixels a d div nb_pixel_min a))])
             (\<lambda>pk_list. Inr (Some pk_list))
       \<and> sc_num_parts (split_forest_call a env d
            (min (nb_part a) (remaining_pixels a d div nb_pixel_min a)))
           = min (nb_part a) (remaining_pixels a d div nb_pixel_min a)
       \<and> (1 \<le> nb_part a \<and> 1 \<le> nb_pixel_min a
            \<longrightarrow> 1 \<le> min (nb_part a) (remaining_pixels a d div nb_pixel_min a))"
proof -
  have np: "num_parts a d = Inr (min (nb_part a) (remaining_pixels a d div nb_pixel_min a))"
    using assms(3) by (rule num_parts_value)
  have pf: "process_file lib a env d =
           bind (parts_loop
                   (process_part lib a env d
                      (split_forest lib (split_forest_call a env d
                         (min (nb_part a) (remaining_pixels a d div nb_pixel_min a)))))
                   [0..<nat (min (nb_part a) (remaining_pixels a d div nb_pixel_min a))])
             (\<lambda>pk_list. Inr (Some pk_list))"
    using assms(1,2) by (simp add: process_file_def np Let_def)
  have ge: "1 \<le> nb_part a \<and> 1 \<le> nb_pixel_min a
            \<longrightarrow> 1 \<le> min (nb_part a) (remaining_pixels a d div nb_pixel_min a)"
    using assms(2) div_ge_one [of "nb_pixel_min a" "remaining_pixels a d"] by auto
  show ?thesis
    using np pf ge by (simp add: split_forest_call_def)
qed

theorem num_parts_requested_witness:
  "SNR_min sample_args < mean_snr masked_delta \<and> mean_reso masked_delta < reso_max sample_args
   \<and> nb_pixel_min sample_args \<le> remaining_pixels sample_args masked_delta
   \<and> 1 \<le> nb_part sample_args \<and> 1 \<le> nb_pixel_min sample_args
   \<and> num_parts sample_args masked_delta
       = Inr (min (nb_part sample_args)
                (remaining_pixels sample_args masked_delta div nb_pixel_min sample_args))
   \<and> min (nb_part sample_args)
        (remaining_pixels sample_args masked_delta div nb_pixel_min sample_args) = 2"
proof -
  have cuts: "\<not> (mean_snr masked_delta \<le> SNR_min sample_args \<or> mean_reso masked_delta \<ge> reso_max sample_args)"
    by (simp add: sample_args_def masked_delta_def)
  have rem: "remaining_pixels sample_args masked_delta = 6"
    by (simp add: run_defs)
  have px: "\<not> remaining_pixels sample_args masked_delta < nb_pixel_min sample_args"
    by (simp add: rem) (simp add: sample_args_def)
  have nz: "nb_pixel_min sample_args \<noteq> 0"
    by (simp add: sample_args_def)
  from num_parts_requested [OF cuts px nz, of sample_pk1d linear_env]
  have "num_parts sample_args masked_delta
       = Inr (min (nb_part sample_args)
                (remaining_pixels sample_args masked_delta div nb_pixel_min sample_args))"
    by blast
  moreover have "min (nb_part sample_args)
        (remaining_pixels sample_args masked_delta div nb_pixel_min sample_args) = 2"
    by (simp add: rem) (simp add: sample_args_def)
  ultimately show ?thesis
    using cuts px by (simp add: sample_args_def)
qed

text \<open>
  The claim as stated fails where the options allow it: with \<^verbatim>\<open>--nb-part 0\<close> the
  spectrum \<open>sample_delta\<close> passes every cut and the splitter is asked for 0 parts (the
  returned list is empty); with \<^verbatim>\<open>--nb-pixel-min -1\<close> it is asked for \<open>-3\<close>.
\<close>

theorem num_parts_requested_counterexample:
  "SNR_min sample_args < mean_snr sample_delta \<and> mean_reso sample_delta < reso_max sample_args
   \<and> nb_pixel_min (sample_args\<lparr>nb_part := 0\<rparr>) \<le> remaining_pixels (sample_args\<lparr>nb_part := 0\<rparr>) sample_delta
   \<and> num_parts (sample_args\<lparr>nb_part := 0\<rparr>) sample_delta = Inr 0
   \<and> process_file sample_pk1d (sample_args\<lparr>nb_part := 0\<rparr>) linear_env sample_delta = Inr (Some [])
   \<and> nb_pixel_min (sample_args\<lparr>nb_pixel_min := - 1\<rparr>)
        \<le> remaining_pixels (sample_args\<lparr>nb_pixel_min := - 1\<rparr>) sample_delta
   \<and> num_parts (sample_args\<lparr>nb_pixel_min := - 1\<rparr>) sample_delta = Inr (- 3)"
  by (simp add: run_defs)

subsection \<open>An unknown noise estimate\<close>

text \<open>
  C9. With a noise estimate that is none of the five, a spectrum that passes the cuts and
  has a part within the masked-pixel maximum (the splitter having returned the arrays of
  all the parts asked for) makes \<^verbatim>\<open>process_file\<close> raise UnboundLocalError: the variable
  \<^verbatim>\<open>pk\<close> is read without having been assigned. Nothing checks the option before: a run
  over no file ends normally.
\<close>

theorem unknown_noise_estimate:
  assumes mode: "noise_estimate a \<notin> noise_modes"
      and sel: "\<not> (mean_snr d \<le> SNR_min a \<or> mean_reso d \<ge> reso_max a)"
               "\<not> remaining_pixels a d < nb_pixel_min a"
      and n: "num_parts a d = Inr n"
      and parts: "\<forall>i<nat n. part_masked lib a env (split_forest lib (split_forest_call a env d n)) i \<noteq> None"
      and one: "\<exists>i<nat n. \<exists>m. part_masked lib a env (split_forest lib (split_forest_call a env d n)) i = Some m
                  \<and> m \<le> nb_pixel_masked_max a"
  shows "process_file lib a env d = Inl UnboundLocalError \<and> main lib a [] = Inr []"
proof -
  let ?sp = "split_forest lib (split_forest_call a env d n)"
  let ?f = "process_part lib a env d ?sp"
  have all: "\<forall>i\<in>set [0..<nat n]. ?f i = Inr None \<or> ?f i = Inl UnboundLocalError"
  proof
    fix i assume "i \<in> set [0..<nat n]"
    with parts obtain m where "part_masked lib a env ?sp i = Some m" by auto
    from process_part_unbound [OF mode this, where d = d] show "?f i = Inr None \<or> ?f i = Inl UnboundLocalError"
      by simp
  qed
  from one obtain i m where i: "i < nat n" and m: "part_masked lib a env ?sp i = Some m"
    and le: "m \<le> nb_pixel_masked_max a" by blast
  from process_part_unbound [OF mode m, where d = d] le have "?f i = Inl UnboundLocalError" by simp
  with i have ex: "\<exists>i\<in>set [0..<nat n]. ?f i = Inl UnboundLocalError" by auto
  from parts_loop_unbound [OF all ex] sel n show ?thesis
    by (simp add: process_file_def Let_def main_def)
qed

theorem unknown_noise_estimate_witness:
  "noise_estimate (sample_args\<lparr>noise_estimate := ''pipline''\<rparr>) \<notin> noise_modes
   \<and> num_parts (sample_args\<lparr>noise_estimate := ''pipline''\<rparr>) masked_delta = Inr 2
   \<and> process_file sample_pk1d (sample_args\<lparr>noise_estimate := ''pipline''\<rparr>) linear_env masked_delta
       = Inl UnboundLocalError
   \<and> main sample_pk1d (sample_args\<lparr>noise_estimate := ''pipline''\<rparr>) [] = Inr []"
proof -
  let ?a = "sample_args\<lparr>noise_estimate := ''pipline''\<rparr>"
  let ?sp = "split_forest sample_pk1d (split_forest_call ?a linear_env masked_delta 2)"
  have mode: "noise_estimate ?a \<notin> noise_modes"
    by (simp add: noise_modes_def)
  have cuts: "\<not> (mean_snr masked_delta \<le> SNR_min ?a \<or> mean_reso masked_delta \<ge> reso_max ?a)"
    by (simp add: sample_args_def masked_delta_def)
  have px: "\<not> remaining_pixels ?a masked_delta < nb_pixel_min ?a"
    by (simp add: run_defs)
  have n: "num_parts ?a masked_delta = Inr 2"
    by (simp add: run_defs)
  have p0: "part_masked sample_pk1d ?a linear_env ?sp 0 = Some 2"
    and p1: "part_masked sample_pk1d ?a linear_env ?sp 1 = Some 0"
    by (simp_all add: part_masked_def run_defs)
  have parts: "\<forall>i<nat 2. part_masked sample_pk1d ?a linear_env ?sp i \<noteq> None"
  proof (intro allI impI)
    fix i :: nat assume "i < nat 2"
    then have "i = 0 \<or> i = 1" by auto
    with p0 p1 show "part_masked sample_pk1d ?a linear_env ?sp i \<noteq> None" by auto
  qed
  have one: "\<exists>i<nat 2. \<exists>m. part_masked sample_pk1d ?a linear_env ?sp i = Some m
               \<and> m \<le> nb_pixel_masked_max ?a"
  proof (intro exI conjI)
    show "(1 :: nat) < nat 2" by simp
    show "part_masked sample_pk1d ?a linear_env ?sp 1 = Some 0" by (rule p1)
    show "0 \<le> nb_pixel_masked_max ?a" by (simp add: sample_args_def)
  qed
  from unknown_noise_estimate [OF mode cuts px n parts one] mode n show ?thesis
    by simp
qed

subsection \<open>The binning across the input files\<close>

lemma same_binning_Inr: "same_binning e d = Inr e' \<Longrightarrow> e' = e"
  by (auto simp: same_binning_def bind_Inr_iff split: if_splits)

lemma same_binning_mismatch:
  assumes "check_linear_binning d = Inr (lb2, dl2)"
      and "lb2 \<noteq> linear_binning e \<or> dl2 \<noteq> delta_lam e"
  shows "same_binning e d = Inl TypeError"
  using assms by (auto simp: same_binning_def)

lemma first_binning_Inr:
  assumes "first_binning a d = Inr e" and "check_linear_binning d = Inr (lb, dl)"
  shows "linear_binning e = lb \<and> delta_lam e = dl"
  using assms by (auto simp: first_binning_def split: if_splits)

lemma main_loop_mismatch:
  assumes "check_linear_binning d = Inr (lb2, dl2)"
      and "lb2 \<noteq> linear_binning e \<or> dl2 \<noteq> delta_lam e"
  shows "main_loop lib a (Some e) ((d # ds) # files) = Inl TypeError"
  using same_binning_mismatch [OF assms] by (simp add: getitem_def)

lemma main_loop_append:
  assumes "main_loop lib a (Some e) pre = Inr out"
  shows "main_loop lib a (Some e) (pre @ rest)
           = bind (main_loop lib a (Some e) rest) (\<lambda>r. Inr (out @ r))"
  using assms
proof (induction pre arbitrary: out)
  case Nil
  then show ?case by (cases "main_loop lib a (Some e) rest") auto
next
  case (Cons deltas pre)
  from Cons.prems obtain d e' pk rs where d: "getitem deltas 0 = Inr d"
    and e': "same_binning e d = Inr e'"
    and pk: "process_all lib a e' deltas = Inr pk"
    and rs: "main_loop lib a (Some e') pre = Inr rs"
    and out: "out = pk # rs"
    by (auto simp: bind_Inr_iff)
  from same_binning_Inr [OF e'] have ee: "e' = e" .
  from Cons.IH [OF rs [unfolded ee]] d e' pk out ee show ?case
    by (cases "main_loop lib a (Some e) rest") auto
qed

text \<open>
  A run that ends normally has found, in every file after the first, a first spectrum
  with the classification of the run.
\<close>

lemma same_binning_agrees:
  assumes "same_binning e d = Inr e'"
  shows "check_linear_binning d = Inr (linear_binning e, delta_lam e)"
  using assms by (auto simp: same_binning_def bind_Inr_iff split: if_splits)

lemma main_loop_first_spectra_agree:
  assumes "main_loop lib a (Some e) files = Inr out"
  shows "\<forall>deltas\<in>set files. deltas \<noteq> []
           \<and> check_linear_binning (hd deltas) = Inr (linear_binning e, delta_lam e)"
  using assms
proof (induction files arbitrary: out)
  case Nil
  then show ?case by simp
next
  case (Cons deltas files)
  from Cons.prems obtain d e' rs where d: "getitem deltas 0 = Inr d"
    and e': "same_binning e d = Inr e'"
    and rs: "main_loop lib a (Some e') files = Inr rs"
    by (auto simp: bind_Inr_iff)
  from same_binning_Inr [OF e'] have ee: "e' = e" .
  from d have ne: "deltas \<noteq> []" and hd: "hd deltas = d"
    by (auto simp: getitem_def hd_conv_nth split: if_splits)
  from Cons.IH [OF rs [unfolded ee]] same_binning_agrees [OF e'] ne hd show ?case
    by simp
qed

lemma check_short: "check_linear_binning short_delta = Inr (True, 9)"
  by (simp add: binning_defs short_delta_def Let_def)

lemma check_wide: "check_linear_binning wide_delta = Inr (True, 90)"
  by (simp add: binning_defs wide_delta_def Let_def)

lemmas main_defs = main_def first_binning_def same_binning_def check_short check_wide getitem_def

lemma short_none: "process_file sample_pk1d short_args env short_delta = Inr None"
  by (simp add: pk_defs short_args_def short_delta_def sample_args_def)

lemma wide_entry:
  "process_file sample_pk1d short_args \<lparr>linear_binning = True, delta_lam = 9, reso_correction = Gaussian\<rparr>
     wide_delta
   = Inr (Some [\<lparr>out_k = [0, 1 / 100], out_pk_raw = [9, 36], out_pk_noise = [0, 0],
                  out_pk_diff = [0, 18], out_correction_reso = [2, 2], out_pk = [9 / 2, 9],
                  out_mean_z = 0, out_num_masked_pixels = 0\<rparr>])"
  by (simp add: pk_defs short_args_def wide_delta_def sample_defs Let_def upt_rec)

text \<open>
  C3, as amended. Once the first spectrum of the first file is classified, every later
  file whose first spectrum is classified differently, in the boolean or in the bin
  width, ends the run with a raised error (TypeError, from raising a string), before any
  of its spectra is processed; nothing is retried. The run has reached that file when the
  files before it were processed without error. Spectra other than the first of a file
  are not classified.
\<close>

theorem binning_mismatch_fatal:
  assumes pre: "main_loop lib a None ((d0 # ds0) # pre) = Inr out"
      and c0: "check_linear_binning d0 = Inr (lb, dl)"
      and c: "check_linear_binning d = Inr (lb2, dl2)"
      and diff: "lb2 \<noteq> lb \<or> dl2 \<noteq> dl"
  shows "main lib a ((d0 # ds0) # pre @ (d # ds) # post) = Inl TypeError"
proof -
  from pre obtain e pk rs where e: "first_binning a d0 = Inr e"
    and pk: "process_all lib a e (d0 # ds0) = Inr pk"
    and rs: "main_loop lib a (Some e) pre = Inr rs"
    by (auto simp: bind_Inr_iff getitem_def)
  from first_binning_Inr [OF e c0] diff
  have "lb2 \<noteq> linear_binning e \<or> dl2 \<noteq> delta_lam e" by simp
  from main_loop_mismatch [OF c this]
  have "main_loop lib a (Some e) ((d # ds) # post) = Inl TypeError" .
  with main_loop_append [OF rs, of "(d # ds) # post"]
  have "main_loop lib a (Some e) (pre @ (d # ds) # post) = Inl TypeError" by simp
  with e pk show ?thesis
    by (simp add: main_def getitem_def)
qed

theorem binning_mismatch_fatal_witness:
  "main_loop sample_pk1d short_args None [[short_delta]] = Inr [[None]]
   \<and> check_linear_binning short_delta = Inr (True, 9)
   \<and> check_linear_binning wide_delta = Inr (True, 90)
   \<and> main sample_pk1d short_args [[short_delta], [wide_delta]] = Inl TypeError"
proof -
  have res: "resolution_matrix short_delta = None" by (simp add: short_delta_def)
  have pre: "main_loop sample_pk1d short_args None ((short_delta # []) # []) = Inr [[None]]"
    by (simp add: main_defs res short_none)
  have diff: "True \<noteq> True \<or> (90 :: real) \<noteq> 9" by simp
  from binning_mismatch_fatal [OF pre check_short check_wide diff, of "[]" "[]"] pre check_short check_wide
  show ?thesis by simp
qed

text \<open>
  The claim as stated fails for a spectrum that is not the first of its file: the second
  spectrum of the second file has the bin width 90 instead of 9, and the run ends
  normally, with the power of that spectrum computed under the bin width 9.
\<close>

theorem binning_mismatch_fatal_counterexample:
  "check_linear_binning short_delta = Inr (True, 9)
   \<and> check_linear_binning wide_delta = Inr (True, 90)
   \<and> main sample_pk1d short_args [[short_delta], [short_delta, wide_delta]]
       = Inr [[None], [None, Some [\<lparr>out_k = [0, 1 / 100], out_pk_raw = [9, 36], out_pk_noise = [0, 0],
                  out_pk_diff = [0, 18], out_correction_reso = [2, 2], out_pk = [9 / 2, 9],
                  out_mean_z = 0, out_num_masked_pixels = 0\<rparr>]]]"
proof -
  have res: "resolution_matrix short_delta = None" by (simp add: short_delta_def)
  show ?thesis
    by (simp add: main_defs res short_none wide_entry)
qed

subsection \<open>The maskers\<close>

lemma np_bool_index_select:
  "length xs = length w \<Longrightarrow> np_bool_index xs w = Inr (select xs w)"
  by (simp add: np_bool_index_def select_def)

lemma length_select:
  "length xs = length w \<Longrightarrow> length (select xs w) + length (filter Not w) = length w"
proof (induction xs arbitrary: w)
  case Nil
  then show ?case by (simp add: select_def)
next
  case (Cons x xs)
  then obtain b w' where w: "w = b # w'" by (cases w) auto
  with Cons.prems have "length xs = length w'" by simp
  from Cons.IH [OF this] w show ?case by (simp add: select_def)
qed

lemma index_rows_select:
  "list_all (\<lambda>r. length r = length w) rows \<Longrightarrow> index_rows rows w = Inr (map (\<lambda>r. select r w) rows)"
  by (induction rows) (simp_all add: np_bool_index_select)

lemma zero_where_not_zeroed:
  assumes "case v of Arr1 xs \<Rightarrow> length xs = length w | Arr2 rows \<Rightarrow> length rows = length w"
  shows "zero_where_not v w = Inr (zeroed v w)"
proof (cases v)
  case (Arr1 xs)
  with assms have l: "length xs = length w" by simp
  have "map (\<lambda>(x, b). if b then x else 0) (zip xs w) = map (\<lambda>i. if w ! i then xs ! i else 0) [0..<length xs]"
    using l by (intro nth_equalityI) auto
  with Arr1 l show ?thesis by (simp add: zero_where_not_def zeroed_def)
next
  case (Arr2 rows)
  with assms have l: "length rows = length w" by simp
  have "map (\<lambda>(r, b). if b then r else map (\<lambda>_. 0) r) (zip rows w)
      = map (\<lambda>i. if w ! i then rows ! i else map (\<lambda>_. 0) (rows ! i)) [0..<length rows]"
    using l by (intro nth_equalityI) auto
  with Arr2 l show ?thesis by (simp add: zero_where_not_def zeroed_def)
qed

lemma remove_pixels_sliced:
  assumes "maskable f w param" and "attrs f param = Some v"
  shows "remove_pixels f param w = Inr (setattr f param (sliced param v w))"
proof (cases v)
  case (Arr1 xs)
  with assms show ?thesis
    by (simp add: maskable_def remove_pixels_def getattr_def index_first_def np_bool_index_select
        sliced_def)
next
  case (Arr2 rows)
  with assms show ?thesis
    by (auto simp: maskable_def remove_pixels_def getattr_def index_first_def index_second_def
        np_bool_index_select index_rows_select sliced_def split: if_splits)
qed

lemma pixels_sliced:
  assumes "maskable f w param" and "attrs f param = Some v"
  shows "pixels param (sliced param v w) + length (filter Not w) = pixels param v"
    and "pixels param v = length w"
proof -
  show v: "pixels param v = length w"
  proof (cases v)
    case (Arr1 xs)
    with assms show ?thesis by (simp add: maskable_def pixels_def)
  next
    case (Arr2 rows)
    with assms show ?thesis
      by (cases rows) (auto simp: maskable_def pixels_def split: if_splits)
  qed
  show "pixels param (sliced param v w) + length (filter Not w) = pixels param v"
  proof (cases v)
    case (Arr1 xs)
    with assms length_select [of xs w] show ?thesis
      by (simp add: maskable_def pixels_def sliced_def)
  next
    case (Arr2 rows)
    show ?thesis
    proof (cases "param = ''resolution_matrix''")
      case True
      with Arr2 assms obtain r rs where rows: "rows = r # rs" and r: "length r = length w"
        by (cases rows) (auto simp: maskable_def)
      with True Arr2 length_select [of r w] show ?thesis
        by (simp add: pixels_def sliced_def)
    next
      case False
      with Arr2 assms length_select [of rows w] show ?thesis
        by (simp add: maskable_def pixels_def sliced_def)
    qed
  qed
qed

lemma maskable_setattr:
  "q \<noteq> p \<Longrightarrow> maskable (setattr f p v) w q = maskable f w q"
  by (simp add: maskable_def setattr_def)

lemma mask_all_remove:
  assumes "distinct ps" and "\<forall>p\<in>set ps. maskable f w p"
  shows "mask_all remove_pixels ps f w
           = Inr (f\<lparr>attrs := (\<lambda>q. if q \<in> set ps then Some (sliced q (the (attrs f q)) w) else attrs f q)\<rparr>)"
  using assms
proof (induction ps arbitrary: f)
  case Nil
  then show ?case by simp
next
  case (Cons p ps)
  from Cons.prems obtain v where v: "attrs f p = Some v" and mp: "maskable f w p"
    by (auto simp: maskable_def split: option.splits)
  let ?f1 = "setattr f p (sliced p v w)"
  have step: "remove_pixels f p w = Inr ?f1"
    using mp v by (rule remove_pixels_sliced)
  have "\<forall>q\<in>set ps. maskable ?f1 w q"
  proof
    fix q assume q: "q \<in> set ps"
    with Cons.prems(1) have "q \<noteq> p" by auto
    with q Cons.prems(2) show "maskable ?f1 w q" by (simp add: maskable_setattr)
  qed
  with Cons.IH [of ?f1] Cons.prems(1)
  have "mask_all remove_pixels ps ?f1 w
      = Inr (?f1\<lparr>attrs := (\<lambda>q. if q \<in> set ps then Some (sliced q (the (attrs ?f1 q)) w) else attrs ?f1 q)\<rparr>)"
    by simp
  moreover have "?f1\<lparr>attrs := (\<lambda>q. if q \<in> set ps then Some (sliced q (the (attrs ?f1 q)) w) else attrs ?f1 q)\<rparr>
      = f\<lparr>attrs := (\<lambda>q. if q \<in> set (p # ps) then Some (sliced q (the (attrs f q)) w) else attrs f q)\<rparr>"
    using Cons.prems(1) v by (auto simp: setattr_def fun_eq_iff)
  ultimately show ?case
    by (simp add: step)
qed

lemma mask_all_zero:
  assumes "''ivar'' \<in> set ps \<longrightarrow> maskable f w ''ivar''"
  shows "mask_all set_ivar_to_zero ps f w
           = Inr (if ''ivar'' \<in> set ps then setattr f ''ivar'' (zeroed (the (attrs f ''ivar'')) w) else f)"
  using assms
proof (induction ps arbitrary: f)
  case Nil
  then show ?case by simp
next
  case (Cons p ps)
  show ?case
  proof (cases "p = ''ivar''")
    case False
    with Cons show ?thesis by (simp add: set_ivar_to_zero_def)
  next
    case True
    with Cons.prems obtain v where v: "attrs f ''ivar'' = Some v" and m: "maskable f w ''ivar''"
      by (auto simp: maskable_def split: option.splits)
    from m v have shape: "case v of Arr1 xs \<Rightarrow> length xs = length w | Arr2 rows \<Rightarrow> length rows = length w"
      by (auto simp: maskable_def split: ndarray.splits)
    let ?f1 = "setattr f ''ivar'' (zeroed v w)"
    have step: "set_ivar_to_zero f ''ivar'' w = Inr ?f1"
      using v by (simp add: set_ivar_to_zero_def getattr_def zero_where_not_zeroed [OF shape])
    have idem: "zeroed (zeroed v w) w = zeroed v w"
      using shape by (cases v) (auto simp: zeroed_def)
    have m1: "maskable ?f1 w ''ivar''"
      using shape by (cases v) (auto simp: maskable_def setattr_def zeroed_def)
    from Cons.IH [of ?f1] m1
    have "mask_all set_ivar_to_zero ps ?f1 w
        = Inr (if ''ivar'' \<in> set ps then setattr ?f1 ''ivar'' (zeroed (the (attrs ?f1 ''ivar'')) w) else ?f1)"
      by simp
    moreover have "setattr ?f1 ''ivar'' (zeroed (the (attrs ?f1 ''ivar'')) w) = ?f1"
      by (simp add: setattr_def idem)
    ultimately show ?thesis
      using True v by (simp add: step)
  qed
qed

lemma sample_maskable: "\<forall>p\<in>set sample_mask_fields. maskable sample_forest keep_mask p"
  by (simp add: sample_mask_fields_def maskable_def sample_forest_def keep_mask_def)

text \<open>
  C8. For a forest whose mask fields exist with as many pixels as the keep-mask has
  entries (the list of the mask fields naming each once): with
  \<^verbatim>\<open>keep_masked_pixels\<close> true, the masker applied to every mask field leaves every
  attribute other than \<^verbatim>\<open>ivar\<close> unchanged, zeroes \<^verbatim>\<open>ivar\<close> where the keep-mask is
  false and keeps the number of pixels of every mask field; with \<^verbatim>\<open>keep_masked_pixels\<close>
  false it replaces every mask field by its slice, one-dimensional arrays along their
  axis and the resolution matrix along its second axis, so that the number of pixels of
  every mask field decreases by the number of masked pixels, and leaves the other
  attributes unchanged.
\<close>

theorem maskers_keep_or_remove:
  assumes "distinct mask_fields" and "\<forall>p\<in>set mask_fields. maskable f w p"
  shows "\<exists>f0 f1.
      mask_all (masker (Mask_init True)) mask_fields f w = Inr f0
    \<and> los_id f0 = los_id f
    \<and> (\<forall>p. p \<noteq> ''ivar'' \<longrightarrow> attrs f0 p = attrs f p)
    \<and> (''ivar'' \<in> set mask_fields \<longrightarrow> attrs f0 ''ivar'' = Some (zeroed (the (attrs f ''ivar'')) w))
    \<and> (\<forall>p\<in>set mask_fields. pixels p (the (attrs f0 p)) = pixels p (the (attrs f p)))
    \<and> mask_all (masker (Mask_init False)) mask_fields f w = Inr f1
    \<and> los_id f1 = los_id f
    \<and> (\<forall>p. p \<notin> set mask_fields \<longrightarrow> attrs f1 p = attrs f p)
    \<and> (\<forall>p\<in>set mask_fields. attrs f1 p = Some (sliced p (the (attrs f p)) w)
          \<and> pixels p (the (attrs f1 p)) + length (filter Not w) = pixels p (the (attrs f p)))"
proof -
  let ?fz = "if ''ivar'' \<in> set mask_fields then setattr f ''ivar'' (zeroed (the (attrs f ''ivar'')) w) else f"
  let ?fr = "f\<lparr>attrs := (\<lambda>q. if q \<in> set mask_fields then Some (sliced q (the (attrs f q)) w) else attrs f q)\<rparr>"
  have z: "mask_all (masker (Mask_init True)) mask_fields f w = Inr ?fz"
    using assms(2) by (simp add: Mask_init_def mask_all_zero)
  have r: "mask_all (masker (Mask_init False)) mask_fields f w = Inr ?fr"
    using assms by (simp add: Mask_init_def mask_all_remove)
  have pz: "pixels p (the (attrs ?fz p)) = pixels p (the (attrs f p))" if "p \<in> set mask_fields" for p
  proof (cases "p = ''ivar''")
    case False
    then show ?thesis by (simp add: setattr_def)
  next
    case True
    with that assms(2) obtain v where v: "attrs f ''ivar'' = Some v"
      by (auto simp: maskable_def split: option.splits)
    have "pixels ''ivar'' (zeroed v w) = pixels ''ivar'' v"
      by (cases v) (simp_all add: pixels_def zeroed_def)
    with True that v show ?thesis by (simp add: setattr_def)
  qed
  have pr: "pixels p (the (attrs ?fr p)) + length (filter Not w) = pixels p (the (attrs f p))"
    if "p \<in> set mask_fields" for p
  proof -
    from that assms(2) obtain v where v: "attrs f p = Some v" and m: "maskable f w p"
      by (auto simp: maskable_def split: option.splits)
    from pixels_sliced(1) [OF m v] that v show ?thesis by simp
  qed
  show ?thesis
    apply (rule exI [of _ ?fz], rule exI [of _ ?fr])
    using z r pz pr by (simp add: setattr_def)
qed

theorem maskers_keep_or_remove_witness:
  "distinct sample_mask_fields
   \<and> list_all (maskable sample_forest keep_mask) sample_mask_fields
   \<and> length (filter Not keep_mask) = 1
   \<and> bind (mask_all (masker (Mask_init True)) sample_mask_fields sample_forest keep_mask)
        (\<lambda>f. Inr (map (attrs f) [''log_lambda'', ''flux'', ''ivar'', ''resolution_matrix'']))
       = Inr [Some (Arr1 [1, 2, 3]), Some (Arr1 [5, 6, 7]), Some (Arr1 [1, 0, 1]),
              Some (Arr2 [[1, 2, 3], [4, 5, 6]])]
   \<and> bind (mask_all (masker (Mask_init False)) sample_mask_fields sample_forest keep_mask)
        (\<lambda>f. Inr (map (attrs f) [''log_lambda'', ''flux'', ''ivar'', ''resolution_matrix'']))
       = Inr [Some (Arr1 [1, 3]), Some (Arr1 [5, 6, 7]), Some (Arr1 [1, 1]),
              Some (Arr2 [[1, 3], [4, 6]])]"
proof -
  have d: "distinct sample_mask_fields"
    by (simp add: sample_mask_fields_def)
  from maskers_keep_or_remove [OF d sample_maskable] obtain fz fr where
      z: "mask_all (masker (Mask_init True)) sample_mask_fields sample_forest keep_mask = Inr fz"
    and zo: "\<forall>p. p \<noteq> ''ivar'' \<longrightarrow> attrs fz p = attrs sample_forest p"
    and zi: "''ivar'' \<in> set sample_mask_fields
               \<longrightarrow> attrs fz ''ivar'' = Some (zeroed (the (attrs sample_forest ''ivar'')) keep_mask)"
    and r: "mask_all (masker (Mask_init False)) sample_mask_fields sample_forest keep_mask = Inr fr"
    and ro: "\<forall>p. p \<notin> set sample_mask_fields \<longrightarrow> attrs fr p = attrs sample_forest p"
    and rs: "\<forall>p\<in>set sample_mask_fields.
               attrs fr p = Some (sliced p (the (attrs sample_forest p)) keep_mask)
             \<and> pixels p (the (attrs fr p)) + length (filter Not keep_mask)
                 = pixels p (the (attrs sample_forest p))"
    by blast
  have zv: "map (attrs fz) [''log_lambda'', ''flux'', ''ivar'', ''resolution_matrix'']
      = [Some (Arr1 [1, 2, 3]), Some (Arr1 [5, 6, 7]), Some (Arr1 [1, 0, 1]),
         Some (Arr2 [[1, 2, 3], [4, 5, 6]])]"
    using zo zi
    by (simp add: sample_mask_fields_def sample_forest_def zeroed_def keep_mask_def upt_rec)
  have rv: "map (attrs fr) [''log_lambda'', ''flux'', ''ivar'', ''resolution_matrix'']
      = [Some (Arr1 [1, 3]), Some (Arr1 [5, 6, 7]), Some (Arr1 [1, 1]), Some (Arr2 [[1, 3], [4, 6]])]"
    using ro rs
    by (simp add: sample_mask_fields_def sample_forest_def sliced_def select_def keep_mask_def)
  have m: "list_all (maskable sample_forest keep_mask) sample_mask_fields"
    using sample_maskable by (simp add: list_all_iff)
  have c: "length (filter Not keep_mask) = 1"
    by (simp add: keep_mask_def)
  from d m c z r zv rv show ?thesis by simp
qed

subsection \<open>The mask of the absorbers\<close>

text \<open>
  C6. On a forest whose line of sight has no entry in the catalogue, \<^verbatim>\<open>apply_mask\<close>
  returns the forest as it is: every attribute, the transmission correction among them,
  is unchanged. (The forest has its \<^verbatim>\<open>log_lambda\<close>, which is read first.)
\<close>

theorem apply_mask_no_entry:
  assumes "los_ids self (los_id f) = None" and "attrs f ''log_lambda'' \<noteq> None"
  shows "apply_mask ph mask_fields self f = Inr f"
  using assms by (auto simp: apply_mask_def getattr_def)

theorem apply_mask_no_entry_witness:
  "los_ids sample_dla_mask (los_id (sample_forest\<lparr>los_id := 8\<rparr>)) = None
   \<and> attrs (sample_forest\<lparr>los_id := 8\<rparr>) ''log_lambda'' = Some (Arr1 [1, 2, 3])
   \<and> apply_mask sample_physics sample_mask_fields sample_dla_mask (sample_forest\<lparr>los_id := 8\<rparr>)
       = Inr (sample_forest\<lparr>los_id := 8\<rparr>)"
proof -
  have n: "los_ids sample_dla_mask (los_id (sample_forest\<lparr>los_id := 8\<rparr>)) = None"
    by (simp add: sample_dla_mask_def group_los_ids_def)
  have l: "attrs (sample_forest\<lparr>los_id := 8\<rparr>) ''log_lambda'' = Some (Arr1 [1, 2, 3])"
    by (simp add: sample_forest_def)
  then have l': "attrs (sample_forest\<lparr>los_id := 8\<rparr>) ''log_lambda'' \<noteq> None" by simp
  from apply_mask_no_entry [OF n l', of sample_physics sample_mask_fields] n l show ?thesis by simp
qed

text \<open>
  What \<^verbatim>\<open>apply_mask\<close> computes when \<^verbatim>\<open>self.mask\<close> is a table of ranges, as its loops
  expect (this includes the empty table of a mask without a mask file): the transmission
  correction is multiplied by the product of the profiles of the absorbers, and the
  keep-mask holds where that product exceeds the limit and the rest-frame wavelength is
  outside every range for every absorber.
\<close>

lemma length_dla_profile: "length (dla_profile ph lam z_abs nhi) = length lam"
  by (simp add: dla_profile_def tau_lya_def tau_lyb_def Let_def)

lemma dla_transmission_fold:
  assumes "length t = length lam"
  shows "length (foldl (\<lambda>t (z_abs, nhi). map (\<lambda>(x, y). x * y) (zip t (dla_profile ph lam z_abs nhi))) t dlas)
           = length lam
       \<and> (\<forall>i<length lam.
            foldl (\<lambda>t (z_abs, nhi). map (\<lambda>(x, y). x * y) (zip t (dla_profile ph lam z_abs nhi))) t dlas ! i
              = t ! i * prod_list (map (\<lambda>(z_abs, nhi). dla_profile ph lam z_abs nhi ! i) dlas))"
  using assms
proof (induction dlas arbitrary: t)
  case Nil
  then show ?case by simp
next
  case (Cons d dlas)
  obtain z nhi where d: "d = (z, nhi)" by (cases d)
  let ?t = "map (\<lambda>(x, y). x * y) (zip t (dla_profile ph lam z nhi))"
  have l: "length ?t = length lam"
    using Cons.prems by (simp add: length_dla_profile)
  have v: "\<forall>i<length lam. ?t ! i = t ! i * dla_profile ph lam z nhi ! i"
    using Cons.prems by (simp add: length_dla_profile)
  from Cons.IH [OF l] v show ?case
    by (simp add: d mult.assoc)
qed

lemma dla_transmission_prod:
  "length (dla_transmission ph lam dlas) = length lam"
  "i < length lam \<Longrightarrow> dla_transmission ph lam dlas ! i
     = prod_list (map (\<lambda>(z_abs, nhi). dla_profile ph lam z_abs nhi ! i) dlas)"
  using dla_transmission_fold [of "replicate (length lam) 1" lam ph dlas]
  by (simp_all add: dla_transmission_def)

lemma inner_ranges:
  assumes "length w = length lam"
  shows "length (foldl (\<lambda>w2 (z_abs, nhi). and_arrays w2 (outside_range lam r z_abs)) w dlas) = length lam
       \<and> (\<forall>i<length lam.
            foldl (\<lambda>w2 (z_abs, nhi). and_arrays w2 (outside_range lam r z_abs)) w dlas ! i
              \<longleftrightarrow> w ! i \<and> (\<forall>(z_abs, nhi)\<in>set dlas. outside (lam ! i) z_abs r))"
  using assms
proof (induction dlas arbitrary: w)
  case Nil
  then show ?case by simp
next
  case (Cons d dlas)
  obtain z nhi where d: "d = (z, nhi)" by (cases d)
  let ?w = "and_arrays w (outside_range lam r z)"
  have l: "length ?w = length lam"
    using Cons.prems by (simp add: and_arrays_def outside_range_def)
  have v: "\<forall>i<length lam. ?w ! i \<longleftrightarrow> w ! i \<and> outside (lam ! i) z r"
    using Cons.prems by (simp add: and_arrays_def outside_range_def outside_def)
  from Cons.IH [OF l] v show ?case
    by (auto simp: d)
qed

lemma outer_ranges:
  assumes "length w = length lam"
  shows "length (foldl (\<lambda>w1 mask_range.
                 foldl (\<lambda>w2 (z_abs, nhi). and_arrays w2 (outside_range lam mask_range z_abs))
                   w1 dlas) w rows) = length lam
       \<and> (\<forall>i<length lam.
            foldl (\<lambda>w1 mask_range.
                 foldl (\<lambda>w2 (z_abs, nhi). and_arrays w2 (outside_range lam mask_range z_abs))
                   w1 dlas) w rows ! i
              \<longleftrightarrow> w ! i \<and> (\<forall>r\<in>set rows. \<forall>(z_abs, nhi)\<in>set dlas. outside (lam ! i) z_abs r))"
  using assms
proof (induction rows arbitrary: w)
  case Nil
  then show ?case by simp
next
  case (Cons r rows)
  let ?w = "foldl (\<lambda>w2 (z_abs, nhi). and_arrays w2 (outside_range lam r z_abs)) w dlas"
  from inner_ranges [OF Cons.prems, where r = r and dlas = dlas]
  have l: "length ?w = length lam"
    and v: "\<forall>i<length lam. ?w ! i \<longleftrightarrow> w ! i \<and> (\<forall>(z_abs, nhi)\<in>set dlas. outside (lam ! i) z_abs r)"
    by blast+
  from Cons.IH [OF l] v show ?case
    by auto
qed

lemma apply_mask_table:
  assumes "mask self = Table rows"
      and "los_ids self (los_id f) = Some dlas"
      and "attrs f ''log_lambda'' = Some (Arr1 xs)"
      and "attrs f ''transmission_correction'' = Some (Arr1 tc)"
      and "length tc = length xs"
  shows "\<exists>w. apply_mask ph mask_fields self f
           = mask_all (masker self) mask_fields
               (setattr f ''transmission_correction''
                  (Arr1 (map (\<lambda>i. tc ! i * prod_list (map (\<lambda>(z_abs, nhi). dla_profile ph (pow10 xs) z_abs nhi ! i) dlas))
                     [0..<length xs]))) w
         \<and> length w = length xs
         \<and> (\<forall>i<length xs. w ! i \<longleftrightarrow>
               prod_list (map (\<lambda>(z_abs, nhi). dla_profile ph (pow10 xs) z_abs nhi ! i) dlas) > dla_mask_limit self
             \<and> (\<forall>r\<in>set rows. \<forall>(z_abs, nhi)\<in>set dlas. outside (pow10 xs ! i) z_abs r))"
proof -
  let ?lam = "pow10 xs"
  let ?t = "dla_transmission ph ?lam dlas"
  let ?thr = "map (\<lambda>x. x > dla_mask_limit self) ?t"
  let ?w = "foldl (\<lambda>w1 mask_range.
                 foldl (\<lambda>w2 (z_abs, nhi). and_arrays w2 (outside_range ?lam mask_range z_abs))
                   w1 dlas) ?thr rows"
  have ll: "length ?lam = length xs" by (simp add: pow10_def)
  have lt: "length ?t = length xs" by (simp add: dla_transmission_prod(1) ll)
  have tv: "\<forall>i<length xs. ?t ! i = prod_list (map (\<lambda>(z_abs, nhi). dla_profile ph ?lam z_abs nhi ! i) dlas)"
    using dla_transmission_prod(2) [of _ ?lam ph dlas] by (simp add: ll)
  have lw0: "length ?thr = length ?lam" by (simp add: lt ll)
  from outer_ranges [OF lw0, where dlas = dlas and rows = rows, unfolded ll]
  have lw: "length ?w = length xs"
    and wv: "\<forall>i<length xs. ?w ! i \<longleftrightarrow> ?thr ! i \<and> (\<forall>r\<in>set rows. \<forall>(z_abs, nhi)\<in>set dlas. outside (?lam ! i) z_abs r)"
    by blast+
  have tc': "map (\<lambda>(x, y). x * y) (zip tc ?t)
      = map (\<lambda>i. tc ! i * prod_list (map (\<lambda>(z_abs, nhi). dla_profile ph ?lam z_abs nhi ! i) dlas)) [0..<length xs]"
    using assms(5) lt tv by (intro nth_equalityI) auto
  have am: "apply_mask ph mask_fields self f
      = mask_all (masker self) mask_fields
          (setattr f ''transmission_correction'' (Arr1 (map (\<lambda>(x, y). x * y) (zip tc ?t)))) ?w"
    using assms lt by (simp add: apply_mask_def getattr_def mask_ranges_def imul_def Let_def)
  have "\<forall>i<length xs. ?w ! i \<longleftrightarrow>
               prod_list (map (\<lambda>(z_abs, nhi). dla_profile ph ?lam z_abs nhi ! i) dlas) > dla_mask_limit self
             \<and> (\<forall>r\<in>set rows. \<forall>(z_abs, nhi)\<in>set dlas. outside (?lam ! i) z_abs r)"
    using wv tv lt by simp
  with am lw show ?thesis
    unfolding tc' by blast
qed

text \<open>
  With a mask file, however, \<^verbatim>\<open>__init__\<close> leaves in \<^verbatim>\<open>self.mask\<close> the array of
  booleans of the comparison, not the selected rows, and \<^verbatim>\<open>apply_mask\<close> raises on every
  forest with an absorber as soon as the file has a row.
\<close>

lemma apply_mask_booleans:
  assumes "mask self = Booleans bs" and "bs \<noteq> []"
      and "los_ids self (los_id f) = Some dlas" and "dlas \<noteq> []"
      and "attrs f ''log_lambda'' = Some (Arr1 xs)"
  shows "apply_mask ph mask_fields self f = Inl IndexError"
  using assms by (simp add: apply_mask_def getattr_def mask_ranges_def Let_def)

lemma load_mask_file:
  "load_mask (Some (Inr rows)) = Inr (Booleans (map (\<lambda>r. frame r = ''RF_DLA'') rows))"
  by (simp add: load_mask_def)

text \<open>
  C7. The claim describes the keep-mask for every configured exclusion range. The code
  fails on it: a mask file with the single row \<^verbatim>\<open>DLA 1210 1220 RF_DLA\<close> is loaded as the
  array \<open>[True]\<close>, and on the forest of line of sight 7, which has one absorber,
  \<^verbatim>\<open>apply_mask\<close> raises IndexError instead of masking.
\<close>

theorem apply_mask_mask_file_raises:
  "load_mask (Some (Inr [\<lparr>row_type = ''DLA'', wave_min = 1210, wave_max = 1220, frame = ''RF_DLA''\<rparr>]))
     = Inr (Booleans [True])
   \<and> los_ids sample_dla_mask (los_id sample_forest) = Some [(2.5, 20.3)]
   \<and> apply_mask sample_physics sample_mask_fields (sample_dla_mask\<lparr>mask := Booleans [True]\<rparr>) sample_forest
       = Inl IndexError"
proof -
  have e: "los_ids sample_dla_mask (los_id sample_forest) = Some [(2.5, 20.3)]"
    by (simp add: sample_dla_mask_def group_los_ids_def sample_forest_def)
  then have e': "los_ids (sample_dla_mask\<lparr>mask := Booleans [True]\<rparr>) (los_id sample_forest) = Some [(2.5, 20.3)]"
    by simp
  have l: "attrs sample_forest ''log_lambda'' = Some (Arr1 [1, 2, 3])"
    by (simp add: sample_forest_def)
  have "apply_mask sample_physics sample_mask_fields (sample_dla_mask\<lparr>mask := Booleans [True]\<rparr>) sample_forest
       = Inl IndexError"
  proof (rule apply_mask_booleans [OF _ _ e' _ l])
    show "mask (sample_dla_mask\<lparr>mask := Booleans [True]\<rparr>) = Booleans [True]" by simp
    show "[True] \<noteq> []" by simp
    show "[(2.5, 20.3 :: real)] \<noteq> []" by simp
  qed
  with e show ?thesis by (simp add: load_mask_def)
qed

subsection \<open>The blinding\<close>

text \<open>
  C10. After \<^verbatim>\<open>set_blinding\<close>, \<^verbatim>\<open>Forest.blinding\<close> (and \<^verbatim>\<open>self.blinding\<close>) is
  'none' when \<^verbatim>\<open>is_mock\<close> or \<^verbatim>\<open>is_sv\<close> holds and 'corr_yshift' otherwise, whatever
  strategy was configured; the configured strategy decides only whether a warning is
  logged, which happens exactly when it differs from the engaged one.
\<close>

theorem set_blinding_engaged:
  "Forest_blinding (set_blinding self is_mock is_sv)
     = (if is_mock \<or> is_sv then ''none'' else ''corr_yshift'')
   \<and> blinding (set_blinding self is_mock is_sv)
     = (if is_mock \<or> is_sv then ''none'' else ''corr_yshift'')
   \<and> (warnings (set_blinding self is_mock is_sv) = warnings self
        \<longleftrightarrow> blinding self = (if is_mock \<or> is_sv then ''none'' else ''corr_yshift''))
   \<and> length (warnings (set_blinding self is_mock is_sv)) \<le> Suc (length (warnings self))"
  by (simp add: set_blinding_def override_def Let_def)

theorem set_blinding_engaged_witness:
  "set_blinding \<lparr>blinding = ''none'', Forest_blinding = [], warnings = []\<rparr> False False
     = \<lparr>blinding = ''corr_yshift'', Forest_blinding = ''corr_yshift'',
        warnings = [blinding_warning ''none'' ''data should be'' ''corr_yshift'']\<rparr>
   \<and> Forest_blinding (set_blinding \<lparr>blinding = ''none'', Forest_blinding = [], warnings = []\<rparr> False False)
       = ''corr_yshift''"
  using set_blinding_engaged [of "\<lparr>blinding = ''none'', Forest_blinding = [], warnings = []\<rparr>" False False]
  by (simp add: set_blinding_def override_def)

end
